theory Spec2Isabelle
  imports Main
begin

section \<open>JavaScript values\<close>

text \<open>
  The registry answers with JSON and the cache stores it untyped, so the model keeps the
  values of the source as a datatype of JSON values, with \<open>JUndef\<close> for JavaScript's
  \<open>undefined\<close> (a property that is absent). Numbers are integers here, those that a
  JavaScript number holds exactly (of magnitude below \<open>2^53\<close>): the source tests them for
  truthiness, increments counters and, where a schema path or a template literal wants a
  string, prints them.
\<close>

datatype json =
    JUndef
  | JNull
  | JBool bool
  | JNum int
  | JStr string
  | JArr "json list"
  | JObj "(string \<times> json) list"

text \<open>Truthiness, as \<open>if (v)\<close>, \<open>v && w\<close> and \<open>v || w\<close> test it.\<close>

fun js_truthy :: "json \<Rightarrow> bool" where
  "js_truthy JUndef = False"
| "js_truthy JNull = False"
| "js_truthy (JBool b) = b"
| "js_truthy (JNum n) = (n \<noteq> 0)"
| "js_truthy (JStr s) = (s \<noteq> [])"
| "js_truthy (JArr xs) = True"
| "js_truthy (JObj kvs) = True"

text \<open>\<open>a && b\<close> is \<open>a\<close> itself when \<open>a\<close> is falsy; \<open>a || b\<close> is \<open>a\<close> itself when it is truthy.\<close>

definition js_and :: "json \<Rightarrow> json \<Rightarrow> json" where
  "js_and a b = (if js_truthy a then b else a)"

definition js_or :: "json \<Rightarrow> json \<Rightarrow> json" where
  "js_or a b = (if js_truthy a then a else b)"

fun isArray :: "json \<Rightarrow> bool" where
  "isArray (JArr xs) = True"
| "isArray v = False"

text \<open>
  \<open>v.k\<close> on a value that is neither \<open>null\<close> nor \<open>undefined\<close>: the field of an object,
  \<open>undefined\<close> on anything else (the only property the source reads from an array is
  \<open>length\<close>, which \<open>js_length\<close> gives). On \<open>null\<close> and \<open>undefined\<close> the access
  raises a TypeError; callers that can meet them test for it first (\<open>nullish\<close>).
\<close>

fun getprop :: "json \<Rightarrow> string \<Rightarrow> json" where
  "getprop (JObj kvs) k = (case map_of kvs k of Some v \<Rightarrow> v | None \<Rightarrow> JUndef)"
| "getprop v k = JUndef"

fun nullish :: "json \<Rightarrow> bool" where
  "nullish JUndef = True"
| "nullish JNull = True"
| "nullish v = False"

fun js_length :: "json \<Rightarrow> nat" where
  "js_length (JArr xs) = length xs"
| "js_length v = 0"

text \<open>\<open>a[0]\<close> on an array: its first element, \<open>undefined\<close> when it is empty.\<close>

fun first_elem :: "json \<Rightarrow> json" where
  "first_elem (JArr (x # xs)) = x"
| "first_elem v = JUndef"

text \<open>
  The string of a number, as \<open>Number.prototype.toString\<close> and \<open>JSON.stringify\<close> print
  an integer of that range: its decimal digits, with a minus sign when it is negative.
\<close>

definition digitChar :: "nat \<Rightarrow> char" where
  "digitChar d = (if d = 0 then CHR ''0'' else if d = 1 then CHR ''1'' else if d = 2 then CHR ''2''
     else if d = 3 then CHR ''3'' else if d = 4 then CHR ''4'' else if d = 5 then CHR ''5''
     else if d = 6 then CHR ''6'' else if d = 7 then CHR ''7'' else if d = 8 then CHR ''8''
     else CHR ''9'')"

fun showNat :: "nat \<Rightarrow> string" where
  "showNat n = (if n < 10 then [digitChar n] else showNat (n div 10) @ [digitChar (n mod 10)])"

definition showInt :: "int \<Rightarrow> string" where
  "showInt i = (if i < 0 then CHR ''-'' # showNat (nat (- i)) else showNat (nat i))"

section \<open>Thumbprint normalizer (routes/scanRoutes.js, lines 36-158)\<close>

text \<open>
  \<open>base64ToBase64Url\<close>: the three global \<open>replace\<close> calls, in the source's order.
  The \<open>catch\<close> branch of the source is not reachable on a string argument.
\<close>

definition replace_char :: "char \<Rightarrow> char \<Rightarrow> string \<Rightarrow> string" where
  "replace_char a b s = map (\<lambda>c. if c = a then b else c) s"

definition remove_char :: "char \<Rightarrow> string \<Rightarrow> string" where
  "remove_char a s = filter (\<lambda>c. c \<noteq> a) s"

definition base64ToBase64Url :: "string \<Rightarrow> string" where
  "base64ToBase64Url base64 =
     remove_char (CHR ''='') (replace_char (CHR ''/'') (CHR ''_'') (replace_char (CHR ''+'') (CHR ''-'') base64))"

text \<open>\<open>base64UrlToBase64\<close>: reverse the character map, then pad to a multiple of four.\<close>

definition base64UrlToBase64 :: "string \<Rightarrow> string" where
  "base64UrlToBase64 base64url =
     (let base64 = replace_char (CHR ''_'') (CHR ''/'') (replace_char (CHR ''-'') (CHR ''+'') base64url);
          padding = length base64 mod 4
      in if padding \<noteq> 0 then base64 @ replicate (4 - padding) (CHR ''='') else base64)"

definition str_includes :: "string \<Rightarrow> char \<Rightarrow> bool" where
  "str_includes s c = (c \<in> set s)"

definition hasBase64Chars :: "string \<Rightarrow> bool" where
  "hasBase64Chars thumbprint =
     (str_includes thumbprint (CHR ''+'') \<or> str_includes thumbprint (CHR ''/'') \<or> str_includes thumbprint (CHR ''=''))"

definition hasBase64UrlChars :: "string \<Rightarrow> bool" where
  "hasBase64UrlChars thumbprint =
     (str_includes thumbprint (CHR ''-'') \<or> str_includes thumbprint (CHR ''_''))"

record normalization =
  normalized :: string
  conversionApplied :: string
  original :: string

definition normalizeThumbprintForEbsi :: "string \<Rightarrow> normalization" where
  "normalizeThumbprintForEbsi thumbprint =
     (if hasBase64Chars thumbprint \<and> \<not> hasBase64UrlChars thumbprint then
        \<lparr>normalized = base64ToBase64Url thumbprint,
         conversionApplied = ''base64-to-base64url'', original = thumbprint\<rparr>
      else if hasBase64UrlChars thumbprint \<and> \<not> hasBase64Chars thumbprint then
        \<lparr>normalized = thumbprint,
         conversionApplied = ''already-base64url'', original = thumbprint\<rparr>
      else if \<not> hasBase64Chars thumbprint \<and> \<not> hasBase64UrlChars thumbprint then
        \<lparr>normalized = thumbprint,
         conversionApplied = ''assumed-base64url'', original = thumbprint\<rparr>
      else
        \<lparr>normalized = thumbprint,
         conversionApplied = ''mixed-encoding-kept-as-is'', original = thumbprint\<rparr>)"

text \<open>
  What the specification calls a standard-base64 string (RFC 4648, section 4): characters
  of the alphabet \<open>A-Z a-z 0-9 + /\<close>, then at most two \<open>=\<close>, a multiple of four
  characters in all. This predicate is the specification's, not the source's.
\<close>

definition base64_alphabet :: "char \<Rightarrow> bool" where
  "base64_alphabet c =
     (c \<in> set ''ABCDEFGHIJKLMNOPQRSTUVWXYZabcdefghijklmnopqrstuvwxyz0123456789+/'')"

definition standard_base64 :: "string \<Rightarrow> bool" where
  "standard_base64 s =
     (let body = takeWhile (\<lambda>c. c \<noteq> CHR ''='') s;
          pad = dropWhile (\<lambda>c. c \<noteq> CHR ''='') s
      in list_all base64_alphabet body \<and> list_all (\<lambda>c. c = CHR ''='') pad
         \<and> length pad \<le> 2 \<and> length s mod 4 = 0)"

text \<open>
  The policy in the specification's words: the two sets of marker characters, and the
  conversion to URL-safe form (strip \<open>=\<close>, map \<open>+\<close> to \<open>-\<close> and \<open>/\<close> to \<open>_\<close>).
\<close>

definition spec_standardMarkers :: "char set" where
  "spec_standardMarkers = {CHR ''+'', CHR ''/'', CHR ''=''}"

definition spec_urlSafeMarkers :: "char set" where
  "spec_urlSafeMarkers = {CHR ''-'', CHR ''_''}"

definition spec_toUrlSafe :: "string \<Rightarrow> string" where
  "spec_toUrlSafe s =
     map (\<lambda>c. if c = CHR ''+'' then CHR ''-'' else if c = CHR ''/'' then CHR ''_'' else c)
       (filter (\<lambda>c. c \<noteq> CHR ''='') s)"

section \<open>Trust cache (models/EbsiCache.js)\<close>

text \<open>
  One cache document, with the fields and defaults of \<open>ebsiCacheSchema\<close>. A field holds
  the JavaScript value that an assignment leaves in it, after the cast to the type of its
  schema path (\<open>castBoolean\<close> and \<open>castString\<close> below): a Boolean, \<open>null\<close> or
  \<open>undefined\<close> in \<open>found\<close>, a string, \<open>null\<close> or \<open>undefined\<close> in \<open>publicKey\<close> and in
  the fields of \<open>issuerInfo\<close>, any value in \<open>ebsiResponse\<close> (a Mixed path).
  \<open>lastChecked\<close> is a point in time
  (the reading of the clock); \<open>hitCount\<close> is a JavaScript number, unbounded here. The two
  bookkeeping fields that \<open>timestamps: true\<close> adds are left out: the source never reads
  them.
\<close>

record issuerInfo =
  officialId :: json
  countryCode :: json
  name :: json

datatype entrySource = upload | verification | refresh | startup

record cacheEntry =
  thumbprint :: string
  found :: json
  ebsiResponse :: json
  publicKey :: json
  issuerInfo :: issuerInfo
  lastChecked :: nat
  hitCount :: nat
  needsRefresh :: bool
  source :: entrySource
  lastStatus :: "nat option"
  lastError :: "string option"

text \<open>The value \<open>{}\<close> assigned to \<open>issuerInfo\<close>: none of its three fields is set.\<close>

definition emptyIssuerInfo :: issuerInfo where
  "emptyIssuerInfo = \<lparr>officialId = JUndef, countryCode = JUndef, name = JUndef\<rparr>"

text \<open>
  \<open>new this({thumbprint, found: false, source: 'verification'})\<close> in \<open>findOrCreate\<close>: the
  other fields take the defaults of the schema (\<open>hitCount\<close> 1, \<open>needsRefresh\<close> false,
  \<open>lastChecked\<close> the time of creation, the rest \<open>null\<close>).
\<close>

definition newEntry :: "nat \<Rightarrow> string \<Rightarrow> cacheEntry" where
  "newEntry now t =
     \<lparr>thumbprint = t, found = JBool False, ebsiResponse = JNull, publicKey = JNull,
      issuerInfo = emptyIssuerInfo, lastChecked = now, hitCount = 1, needsRefresh = False,
      source = verification, lastStatus = None, lastError = None\<rparr>"

text \<open>
  The collection: the saved documents in insertion order. The schema declares
  \<open>thumbprint\<close> unique, and \<open>findOne({thumbprint})\<close> returns the document with that key.
\<close>

type_synonym store = "cacheEntry list"

definition findOne :: "string \<Rightarrow> store \<Rightarrow> cacheEntry option" where
  "findOne t st = find (\<lambda>e. thumbprint e = t) st"

definition findOrCreate :: "nat \<Rightarrow> string \<Rightarrow> store \<Rightarrow> cacheEntry" where
  "findOrCreate now t st = (case findOne t st of Some entry \<Rightarrow> entry | None \<Rightarrow> newEntry now t)"

text \<open>
  \<open>response && Array.isArray(response) && response.length > 0\<close>: when \<open>response\<close> is
  falsy the expression is \<open>response\<close> itself, so a \<open>null\<close> response gives \<open>null\<close>, not
  \<open>false\<close>.
\<close>

definition foundValue :: "json \<Rightarrow> json" where
  "foundValue response =
     js_and (js_and response (JBool (isArray response))) (JBool (0 < js_length response))"

text \<open>
  Mongoose casts a value to the type of its schema path when it is assigned
  (\<open>lib/cast/boolean.js\<close>, \<open>lib/cast/string.js\<close>). \<open>null\<close> and \<open>undefined\<close> pass
  unchanged. On a Boolean path \<open>true\<close>, \<open>'true'\<close>, \<open>1\<close>, \<open>'1'\<close> and \<open>'yes'\<close> become
  \<open>true\<close>, and \<open>false\<close>, \<open>'false'\<close>, \<open>0\<close>, \<open>'0'\<close> and \<open>'no'\<close> become \<open>false\<close>. On a
  String path a string stays, a number or a Boolean becomes its text, and an object
  becomes its \<open>_id\<close> when that is a non-empty string. Every other value raises a
  CastError: \<open>None\<close>.
\<close>

fun castBoolean :: "json \<Rightarrow> json option" where
  "castBoolean JUndef = Some JUndef"
| "castBoolean JNull = Some JNull"
| "castBoolean (JBool b) = Some (JBool b)"
| "castBoolean (JNum n) =
     (if n = 1 then Some (JBool True) else if n = 0 then Some (JBool False) else None)"
| "castBoolean (JStr s) =
     (if s = ''true'' \<or> s = ''1'' \<or> s = ''yes'' then Some (JBool True)
      else if s = ''false'' \<or> s = ''0'' \<or> s = ''no'' then Some (JBool False)
      else None)"
| "castBoolean (JArr xs) = None"
| "castBoolean (JObj kvs) = None"

fun castString :: "json \<Rightarrow> json option" where
  "castString JUndef = Some JUndef"
| "castString JNull = Some JNull"
| "castString (JStr s) = Some (JStr s)"
| "castString (JNum n) = Some (JStr (showInt n))"
| "castString (JBool b) = Some (JStr (if b then ''true'' else ''false''))"
| "castString (JArr xs) = None"
| "castString (JObj kvs) =
     (case map_of kvs ''_id'' of
        Some (JStr s) \<Rightarrow> if s \<noteq> [] then Some (JStr s) else None
      | _ \<Rightarrow> None)"

text \<open>
  An assignment \<open>this.path = v\<close>: the path takes the cast value; when the cast raises
  an error the path is not set and the error is recorded against the path, to be reported
  by the next validation. A document in memory is the fields together with the paths
  that have such an error pending.
\<close>

definition castValue :: "(json \<Rightarrow> json option) \<Rightarrow> json \<Rightarrow> json \<Rightarrow> json" where
  "castValue cast old v = (case cast v of Some c \<Rightarrow> c | None \<Rightarrow> old)"

definition castError :: "(json \<Rightarrow> json option) \<Rightarrow> string \<Rightarrow> json \<Rightarrow> string list" where
  "castError cast path v = (case cast v of Some c \<Rightarrow> [] | None \<Rightarrow> [path])"

type_synonym document = "cacheEntry \<times> string list"

text \<open>
  The assignments of \<open>updateWithEbsiResponse\<close> to the document \<open>this\<close>, in the
  source's order. \<open>issuer.publicKey || null\<close> and the three issuer fields are read from
  \<open>response[0]\<close>, which the guard has found truthy. Assigning an object to
  \<open>issuerInfo\<close> clears its fields and then assigns each given one.
\<close>

definition assignEbsiResponse ::
  "nat \<Rightarrow> json \<Rightarrow> nat \<Rightarrow> string option \<Rightarrow> cacheEntry \<Rightarrow> document" where
  "assignEbsiResponse now response status error this =
     (let this1 = this\<lparr>found := castValue castBoolean (found this) (foundValue response),
                       ebsiResponse := response,
                       lastChecked := now, lastStatus := Some status, lastError := error,
                       needsRefresh := False, hitCount := hitCount this + 1\<rparr>;
          errors = castError castBoolean ''found'' (foundValue response)
      in if js_truthy (found this1) \<and> js_truthy response \<and> js_truthy (first_elem response) then
           (let issuer = first_elem response;
                key = js_or (getprop issuer ''publicKey'') JNull
            in (this1\<lparr>publicKey := castValue castString (publicKey this1) key,
                      issuerInfo :=
                        \<lparr>officialId = castValue castString JUndef (getprop issuer ''officialId''),
                         countryCode = castValue castString JUndef (getprop issuer ''countryCode''),
                         name = castValue castString JUndef (getprop issuer ''name'')\<rparr>\<rparr>,
                errors @ castError castString ''publicKey'' key
                  @ castError castString ''issuerInfo.officialId'' (getprop issuer ''officialId'')
                  @ castError castString ''issuerInfo.countryCode'' (getprop issuer ''countryCode'')
                  @ castError castString ''issuerInfo.name'' (getprop issuer ''name'')))
         else (this1\<lparr>publicKey := JNull, issuerInfo := emptyIssuerInfo\<rparr>, errors))"

text \<open>
  \<open>save()\<close> of the Mongoose document validates it against the schema before it
  writes. A pending cast error fails the validation. The schema declares \<open>thumbprint\<close>
  (a String) and \<open>found\<close> (a Boolean) \<open>required: true\<close>: a required string must be
  non-empty, and a required Boolean must be exactly \<open>true\<close> or \<open>false\<close>, so \<open>null\<close>
  does not pass. A document that fails makes \<open>save()\<close> reject (a ValidationError) and
  nothing is written: \<open>None\<close> here. A document that passes replaces the stored one with
  its key, or is inserted.
\<close>

definition requiredPresent :: "cacheEntry \<Rightarrow> bool" where
  "requiredPresent doc =
     (thumbprint doc \<noteq> [] \<and> (found doc = JBool True \<or> found doc = JBool False))"

definition schemaValid :: "document \<Rightarrow> bool" where
  "schemaValid d = (snd d = [] \<and> requiredPresent (fst d))"

definition save :: "document \<Rightarrow> store \<Rightarrow> store option" where
  "save d st =
     (if \<not> schemaValid d then None
      else if list_ex (\<lambda>e. thumbprint e = thumbprint (fst d)) st
           then Some (map (\<lambda>e. if thumbprint e = thumbprint (fst d) then fst d else e) st)
           else Some (st @ [fst d]))"

text \<open>
  \<open>updateWithEbsiResponse(response, status, error)\<close>: the assignments, then
  \<open>return this.save()\<close>. The result is the collection after the write, or \<open>None\<close>
  when the promise that the method returns is rejected.
\<close>

definition updateWithEbsiResponse ::
  "nat \<Rightarrow> json \<Rightarrow> nat \<Rightarrow> string option \<Rightarrow> cacheEntry \<Rightarrow> store \<Rightarrow> store option" where
  "updateWithEbsiResponse now response status error this st =
     save (assignEbsiResponse now response status error this) st"

text \<open>\<open>markAllForRefresh\<close>, \<open>getEntriesNeedingRefresh(limit)\<close> and the count of flagged entries.\<close>

definition markAllForRefresh :: "store \<Rightarrow> store" where
  "markAllForRefresh st = map (\<lambda>e. e\<lparr>needsRefresh := True\<rparr>) st"

definition getEntriesNeedingRefresh :: "nat \<Rightarrow> store \<Rightarrow> cacheEntry list" where
  "getEntriesNeedingRefresh limit st = take limit (filter needsRefresh st)"

definition countNeedsRefresh :: "store \<Rightarrow> nat" where
  "countNeedsRefresh st = length (filter needsRefresh st)"

section \<open>Trust registry client (routes/scanRoutes.js, lines 1707-1833)\<close>

text \<open>
  What \<open>axios.get\<close> does: it resolves with a status and the parsed body, or it throws an
  error that carries a message and, for an HTTP error status, the response's status.
  The registry is a function from the thumbprint sent in the query to that outcome.
\<close>

datatype http = Response nat json | Failure string "nat option"

type_synonym registry = "string \<Rightarrow> http"

text \<open>
  The two ways the source writes to the cache. A cache consultation that hits (lines
  1714-1729): \<open>cacheEntry.hitCount += 1; await cacheEntry.save()\<close>. An upsert (lines
  1787-1788 and 1817-1822): \<open>findOrCreate(thumbprint)\<close>, then
  \<open>updateWithEbsiResponse(response, status, error)\<close> on the document found or made.
  A document read from the collection has no cast error pending.
  \<open>None\<close> is the rejection of \<open>save()\<close>.
\<close>

definition countHit :: "cacheEntry \<Rightarrow> store \<Rightarrow> store option" where
  "countHit hit st = save (hit\<lparr>hitCount := hitCount hit + 1\<rparr>, []) st"

definition upsert :: "nat \<Rightarrow> string \<Rightarrow> json \<Rightarrow> nat \<Rightarrow> string option \<Rightarrow> store \<Rightarrow> store option" where
  "upsert now t response status error st =
     updateWithEbsiResponse now response status error (findOrCreate now t st) st"

text \<open>
  The \<open>catch\<close> branch: an upsert with
  \<open>(null, error.response?.status || 0, error.message)\<close>; an error of that upsert is
  caught and logged; the function returns \<open>false\<close>.
\<close>

definition errorStatus :: "nat option \<Rightarrow> nat" where
  "errorStatus rs = (case rs of Some s \<Rightarrow> s | None \<Rightarrow> 0)"

definition recordFailure :: "nat \<Rightarrow> string \<Rightarrow> string \<Rightarrow> nat option \<Rightarrow> store \<Rightarrow> json \<times> store" where
  "recordFailure now t msg rs st =
     (case upsert now t JNull (errorStatus rs) (Some msg) st of
        Some st' \<Rightarrow> (JBool False, st')
      | None \<Rightarrow> (JBool False, st))"

definition validationFailed :: string where
  "validationFailed = ''EbsiCache validation failed''"

text \<open>
  \<open>checkThumbprintInBridge(thumbprint, forceRefresh)\<close>. The result is the returned value
  and the collection afterwards. Where the registry is queried \<open>cacheEntry\<close> is
  \<open>null\<close> (a hit has returned before), so of the two update branches the one with
  \<open>findOrCreate\<close> runs. A rejected \<open>save()\<close> inside the \<open>try\<close> block is an exception
  like any other and runs the \<open>catch\<close> branch.
\<close>

definition checkThumbprintInBridge ::
  "registry \<Rightarrow> nat \<Rightarrow> string \<Rightarrow> bool \<Rightarrow> store \<Rightarrow> json \<times> store" where
  "checkThumbprintInBridge reg now t forceRefresh st =
     (let cacheEntry = (if \<not> forceRefresh then findOne t st else None)
      in case cacheEntry of
           Some hit \<Rightarrow>
             (case countHit hit st of
                Some st' \<Rightarrow> (found hit, st')
              | None \<Rightarrow> recordFailure now t validationFailed None st)
         | None \<Rightarrow>
             (case reg (normalized (normalizeThumbprintForEbsi t)) of
                Failure msg rs \<Rightarrow> recordFailure now t msg rs st
              | Response status body \<Rightarrow>
                  (case upsert now t body status None st of
                     Some st' \<Rightarrow> (foundValue body, st')
                   | None \<Rightarrow> recordFailure now t validationFailed None st)))"

section \<open>Background refresher (routes/scanRoutes.js, lines 1910-1960)\<close>

text \<open>
  The refresher's view of the world: the collection and the number of registry lookups
  made so far. The registry's answer and the clock's reading may differ from one lookup
  to the next, so both are indexed by that number.
  One run takes up to 50 flagged entries and looks each up with \<open>forceRefresh = true\<close>;
  when flagged entries remain afterwards, \<open>setTimeout\<close> starts the next run. A run
  that never stops rescheduling has no result: \<open>None\<close>.
\<close>

definition refreshEntry ::
  "(nat \<Rightarrow> registry) \<Rightarrow> (nat \<Rightarrow> nat) \<Rightarrow> cacheEntry \<Rightarrow> store \<times> nat \<Rightarrow> store \<times> nat" where
  "refreshEntry reg clock entry w =
     (snd (checkThumbprintInBridge (reg (snd w)) (clock (snd w)) (thumbprint entry) True (fst w)),
      snd w + 1)"

definition refreshBatch ::
  "(nat \<Rightarrow> registry) \<Rightarrow> (nat \<Rightarrow> nat) \<Rightarrow> store \<times> nat \<Rightarrow> store \<times> nat" where
  "refreshBatch reg clock w =
     fold (refreshEntry reg clock) (getEntriesNeedingRefresh 50 (fst w)) w"

partial_function (option) refreshCacheInBackground ::
  "(nat \<Rightarrow> registry) \<Rightarrow> (nat \<Rightarrow> nat) \<Rightarrow> store \<times> nat \<Rightarrow> (store \<times> nat) option" where
  "refreshCacheInBackground reg clock w =
     (let w' = refreshBatch reg clock w
      in if 0 < countNeedsRefresh (fst w') then refreshCacheInBackground reg clock w'
         else Some w')"

declare refreshCacheInBackground.simps [code]

section \<open>Signature validator (routes/scanRoutes.js, lines 864-1089)\<close>

text \<open>
  \<open>s.split(sep)\<close> for a one-character separator: the pieces between the separators, one
  more than there are separators.
\<close>

fun splitOn :: "char \<Rightarrow> string \<Rightarrow> string list" where
  "splitOn sep [] = [Nil]"
| "splitOn sep (c # cs) =
     (if c = sep then [] # splitOn sep cs
      else (case splitOn sep cs of
              [] \<Rightarrow> [c # Nil]
            | piece # pieces \<Rightarrow> (c # piece) # pieces))"

text \<open>
  The operations of the platform that the validator calls, as parameters: decoding and
  parsing a base64url JSON segment (\<open>None\<close> when \<open>JSON.parse\<close> throws), the byte length
  of a base64url segment, the string that a template literal makes of a value that
  converts to one (\<open>stringConvertible\<close> below), the
  engine's message for a TypeError at a given expression and for a syntax error of
  \<open>JSON.parse\<close>, building a
  PEM key from an RSA JWK (\<open>Buffer.from\<close>, \<open>crypto.createPublicKey\<close> and
  \<open>export\<close> in \<open>convertRsaJwkToPem\<close>), reading the key of an X.509 certificate in
  PEM text (\<open>crypto.X509Certificate\<close> in \<open>extractPublicKeyFromX509\<close>), what that
  function does with a certificate value that is not a string, and the RSA-SHA256 check
  of \<open>verifier.verify\<close>. Each of the last four either fails with a message (\<open>Inl\<close>)
  or returns its result.
\<close>

record platform =
  parseSegment :: "string \<Rightarrow> json option"
  segmentBytes :: "string \<Rightarrow> nat"
  templateString :: "json \<Rightarrow> string"
  typeErrorMessage :: "string \<Rightarrow> string"
  syntaxErrorMessage :: "string \<Rightarrow> string"
  createPublicKey :: "json \<Rightarrow> string + string"
  x509PublicKey :: "string \<Rightarrow> string + string"
  x509FromValue :: "json \<Rightarrow> string + string"
  rsaVerify :: "string \<Rightarrow> string \<Rightarrow> string \<Rightarrow> string + bool"

text \<open>The calls to key resolution and to verification that a run has made, in order.\<close>

datatype cryptoCall =
    ConvertRsaJwkToPem json
  | ExtractPublicKeyFromX509 json
  | Verify string string string

text \<open>
  The errors that the validator throws and catches itself; the result carries the message
  of the error. \<open>TypeError\<close> is the engine's error when a property of \<open>null\<close> or
  \<open>undefined\<close> is read, a value without the method is called, or a value that has no
  string conversion is put into a template literal; it names the
  expression. \<open>HeaderSyntaxError\<close> carries the segment that did not parse.
\<close>

datatype validationError =
    InvalidJwtFormat
  | HeaderSyntaxError string
  | TypeError string
  | UnsupportedAlgorithm json
  | UnsupportedKeyType json
  | NoKeyMaterial
  | InvalidRegistryResponse
  | InvalidRsaJwk
  | CryptoError string

text \<open>
  The result of \<open>validateJwtSignature\<close>: the object of the normal return, or the object
  of the \<open>catch\<close> branch, \<open>{signatureValid: false, error: message, publicKeySource: null}\<close>.
\<close>

record validated =
  isValid :: bool
  publicKeySource :: json
  signingInput :: string
  signatureLength :: nat
  algorithm :: json
  thumbprintMatch :: json
  issuerOfficialId :: json
  issuerCountryCode :: json
  issuerName :: json
  issuerDid :: json

datatype validation = Validated validated | Rejected validationError

fun signatureValid :: "validation \<Rightarrow> bool" where
  "signatureValid (Validated v) = isValid v"
| "signatureValid (Rejected e) = False"

fun isString :: "json \<Rightarrow> bool" where
  "isString (JStr s) = True"
| "isString v = False"

text \<open>
  Whether a template literal can convert a value to a string. A primitive always
  converts. An object converts through the \<open>toString\<close> that it inherits, unless a field
  of its own named \<open>toString\<close> hides that method: a parsed JSON value is never callable,
  the inherited \<open>valueOf\<close> returns the object itself, and the engine throws a TypeError
  (\<open>Cannot convert object to primitive value\<close>). An array joins the conversions of its
  elements, so it converts when each of them does.
\<close>

primrec stringConvertible :: "json \<Rightarrow> bool" where
  "stringConvertible JUndef = True"
| "stringConvertible JNull = True"
| "stringConvertible (JBool b) = True"
| "stringConvertible (JNum n) = True"
| "stringConvertible (JStr s) = True"
| "stringConvertible (JArr xs) = list_all (\<lambda>b. b) (map stringConvertible xs)"
| "stringConvertible (JObj kvs) = (map_of kvs ''toString'' = None)"

text \<open>
  \<open>convertRsaJwkToPem(jwk)\<close>: the guard on \<open>kty\<close>, \<open>n\<close> and \<open>e\<close>, then the platform.
  \<open>extractPublicKeyFromX509(x509Cert)\<close>: a certificate without the PEM header is wrapped
  in the boundary markers first; a value that is not a string is left to the platform.
\<close>

definition convertRsaJwkToPem :: "platform \<Rightarrow> json \<Rightarrow> validationError + string" where
  "convertRsaJwkToPem p jwk =
     (if getprop jwk ''kty'' \<noteq> JStr ''RSA'' \<or> \<not> js_truthy (getprop jwk ''n'')
         \<or> \<not> js_truthy (getprop jwk ''e'')
      then Inl InvalidRsaJwk
      else (case createPublicKey p jwk of Inl msg \<Rightarrow> Inl (CryptoError msg) | Inr pem \<Rightarrow> Inr pem))"

definition pemHeader :: string where
  "pemHeader = ''-----BEGIN CERTIFICATE-----''"

definition pemFooter :: string where
  "pemFooter = ''-----END CERTIFICATE-----''"

fun containsString :: "string \<Rightarrow> string \<Rightarrow> bool" where
  "containsString needle [] = (needle = [])"
| "containsString needle (c # cs) =
     (take (length needle) (c # cs) = needle \<or> containsString needle cs)"

definition extractPublicKeyFromX509 :: "platform \<Rightarrow> json \<Rightarrow> validationError + string" where
  "extractPublicKeyFromX509 p x509Cert =
     (case x509Cert of
        JStr cert \<Rightarrow>
          (let certPem = (if \<not> containsString pemHeader cert
                          then pemHeader @ [CHR 0x0A] @ cert @ [CHR 0x0A] @ pemFooter
                          else cert)
           in case x509PublicKey p certPem of
                Inl msg \<Rightarrow> Inl (CryptoError msg)
              | Inr pem \<Rightarrow> Inr pem)
      | _ \<Rightarrow>
          (case x509FromValue p x509Cert of
             Inl msg \<Rightarrow> Inl (CryptoError msg)
           | Inr pem \<Rightarrow> Inr pem))"

text \<open>
  The part of \<open>validateJwtSignature\<close> that finds the issuer record and its key:
  \<open>publicKeyData.results[0]\<close>, then the first JWK if there is a list of them, else the
  first certificate. The result is the issuer record and the PEM key, and the calls made.
  The message for a key type that is not supported is built with a template literal
  from \<open>kty\<close>, which throws when \<open>kty\<close> has no string conversion.
\<close>

definition nonEmptyArray :: "json \<Rightarrow> bool" where
  "nonEmptyArray v = (js_truthy v \<and> isArray v \<and> 0 < js_length v)"

definition resolveKey ::
  "platform \<Rightarrow> json \<Rightarrow> (validationError + json \<times> string) \<times> cryptoCall list" where
  "resolveKey p publicKeyData =
     (if js_truthy publicKeyData \<and> nonEmptyArray (getprop publicKeyData ''results'') then
        (let issuerData = first_elem (getprop publicKeyData ''results'')
         in if nullish issuerData then (Inl (TypeError ''issuerData.publicKeys''), [])
            else if nonEmptyArray (getprop issuerData ''publicKeys'') then
              (let publicKeyJwk = first_elem (getprop issuerData ''publicKeys'')
               in if nullish publicKeyJwk then (Inl (TypeError ''publicKeyJwk.kty''), [])
                  else if getprop publicKeyJwk ''kty'' = JStr ''RSA''
                          \<and> js_truthy (getprop publicKeyJwk ''n'')
                          \<and> js_truthy (getprop publicKeyJwk ''e'')
                  then (case convertRsaJwkToPem p publicKeyJwk of
                          Inl e \<Rightarrow> (Inl e, [ConvertRsaJwkToPem publicKeyJwk])
                        | Inr pem \<Rightarrow> (Inr (issuerData, pem), [ConvertRsaJwkToPem publicKeyJwk]))
                  else if \<not> stringConvertible (getprop publicKeyJwk ''kty'')
                  then (Inl (TypeError ''String(publicKeyJwk.kty)''), [])
                  else (Inl (UnsupportedKeyType (getprop publicKeyJwk ''kty'')), []))
            else if nonEmptyArray (getprop issuerData ''certificates'') then
              (let x509Certificate = first_elem (getprop issuerData ''certificates'')
               in case extractPublicKeyFromX509 p x509Certificate of
                    Inl e \<Rightarrow> (Inl e, [ExtractPublicKeyFromX509 x509Certificate])
                  | Inr pem \<Rightarrow> (Inr (issuerData, pem), [ExtractPublicKeyFromX509 x509Certificate]))
            else (Inl NoKeyMaterial, []))
      else (Inl InvalidRegistryResponse, []))"

text \<open>
  \<open>issuerData?.publicKeys?.[0]?.['x5t#S256'] || 'N/A'\<close>: each \<open>?.\<close> gives
  \<open>undefined\<close> on a nullish value. Here \<open>publicKeys\<close> need not be an array: \<open>v[0]\<close>
  is the first element of an array, the first character of a string, the field \<open>0\<close> of
  an object.
\<close>

fun index0 :: "json \<Rightarrow> json" where
  "index0 (JArr (x # xs)) = x"
| "index0 (JStr (c # cs)) = JStr [c]"
| "index0 (JObj kvs) = getprop (JObj kvs) ''0''"
| "index0 v = JUndef"

definition thumbprintOf :: "json \<Rightarrow> json" where
  "thumbprintOf issuerData =
     js_or (getprop (index0 (getprop issuerData ''publicKeys'')) ''x5t#S256'') (JStr ''N/A'')"

text \<open>
  What follows the algorithm check: the signing input \<open>header.payload\<close>, the key, the
  verification, and the object returned.
\<close>

definition verifyWithKey ::
  "platform \<Rightarrow> string \<Rightarrow> string \<Rightarrow> string \<Rightarrow> json \<Rightarrow> json \<Rightarrow> validation \<times> cryptoCall list" where
  "verifyWithKey p headerB64 payloadB64 signatureB64 alg publicKeyData =
     (let input = headerB64 @ ''.'' @ payloadB64
      in case resolveKey p publicKeyData of
           (Inl e, calls) \<Rightarrow> (Rejected e, calls)
         | (Inr (issuerData, pem), calls) \<Rightarrow>
             (case rsaVerify p pem input signatureB64 of
                Inl msg \<Rightarrow> (Rejected (CryptoError msg), calls @ [Verify pem input signatureB64])
              | Inr ok \<Rightarrow>
                  (Validated \<lparr>isValid = ok, publicKeySource = issuerData, signingInput = input,
                      signatureLength = segmentBytes p signatureB64, algorithm = alg,
                      thumbprintMatch = thumbprintOf issuerData,
                      issuerOfficialId = getprop issuerData ''officialId'',
                      issuerCountryCode = getprop issuerData ''countryCode'',
                      issuerName = getprop issuerData ''name'',
                      issuerDid = getprop issuerData ''did''\<rparr>,
                   calls @ [Verify pem input signatureB64])))"

text \<open>
  \<open>validateJwtSignature(jwtToken, publicKeyData)\<close>. Reading \<open>header.alg\<close> throws when
  the parsed header is \<open>null\<close>; the debug line calls \<open>header.kid?.substring\<close>, which
  throws when \<open>kid\<close> is neither nullish nor a string; the message of the
  unsupported-algorithm error is built with a template literal from the algorithm (line
  888), which throws when the algorithm has no string conversion. Every error is caught
  and becomes the \<open>Rejected\<close> result.
\<close>

definition validateJwtSignature ::
  "platform \<Rightarrow> string \<Rightarrow> json \<Rightarrow> validation \<times> cryptoCall list" where
  "validateJwtSignature p jwtToken publicKeyData =
     (case splitOn (CHR ''.'') jwtToken of
        [headerB64, payloadB64, signatureB64] \<Rightarrow>
          (case parseSegment p headerB64 of
             None \<Rightarrow> (Rejected (HeaderSyntaxError headerB64), [])
           | Some header \<Rightarrow>
               if nullish header then (Rejected (TypeError ''header.alg''), [])
               else
                 (let alg = js_or (getprop header ''alg'') (JStr ''RS256'')
                  in if \<not> nullish (getprop header ''kid'') \<and> \<not> isString (getprop header ''kid'')
                     then (Rejected (TypeError ''header.kid?.substring''), [])
                     else if alg \<noteq> JStr ''RS256''
                     then (if \<not> stringConvertible alg
                           then (Rejected (TypeError ''String(algorithm)''), [])
                           else (Rejected (UnsupportedAlgorithm alg), []))
                     else verifyWithKey p headerB64 payloadB64 signatureB64 alg publicKeyData))
      | _ \<Rightarrow> (Rejected InvalidJwtFormat, []))"

text \<open>The \<open>error.message\<close> of each error, as the returned object carries it.\<close>

fun errorMessage :: "platform \<Rightarrow> validationError \<Rightarrow> string" where
  "errorMessage p InvalidJwtFormat = ''Invalid JWT format - expected 3 parts''"
| "errorMessage p (HeaderSyntaxError segment) = syntaxErrorMessage p segment"
| "errorMessage p (TypeError expression) = typeErrorMessage p expression"
| "errorMessage p (UnsupportedAlgorithm alg) =
     ''Unsupported JWT algorithm: '' @ templateString p alg @ ''. Only RS256 is supported.''"
| "errorMessage p (UnsupportedKeyType kty) = ''Unsupported JWK key type: '' @ templateString p kty"
| "errorMessage p NoKeyMaterial = ''No public key or certificate found in EBSI response''"
| "errorMessage p InvalidRegistryResponse =
     ''Invalid EBSI response structure - expected data.results array''"
| "errorMessage p InvalidRsaJwk = ''Invalid RSA JWK - missing required fields''"
| "errorMessage p (CryptoError msg) = msg"

text \<open>The returned object as a JSON value, for \<open>JSON.stringify\<close>.\<close>

fun validationJson :: "platform \<Rightarrow> validation \<Rightarrow> json" where
  "validationJson p (Validated v) =
     JObj [(''signatureValid'', JBool (isValid v)),
           (''publicKeySource'', publicKeySource v),
           (''signingInput'', JStr (signingInput v)),
           (''signatureLength'', JNum (int (signatureLength v))),
           (''algorithm'', algorithm v),
           (''thumbprintMatch'', thumbprintMatch v),
           (''issuerInfo'', JObj [(''officialId'', issuerOfficialId v),
                                  (''countryCode'', issuerCountryCode v),
                                  (''name'', issuerName v),
                                  (''did'', issuerDid v)])]"
| "validationJson p (Rejected e) =
     JObj [(''signatureValid'', JBool False),
           (''error'', JStr (errorMessage p e)),
           (''publicKeySource'', JNull)]"

section \<open>Verification pipeline (routes/scanRoutes.js, lines 744-862 and 1091-1193)\<close>

text \<open>
  A value that a \<open>throw\<close> carries: an \<open>Error\<close> object with its message and the
  \<open>step\<close> property that the \<open>catch\<close> blocks set, or a primitive (a library may throw a
  bare string), on which setting a property has no effect.
\<close>

datatype thrown = ErrorObject string "string option" | Primitive string

fun setStep :: "string \<Rightarrow> thrown \<Rightarrow> thrown" where
  "setStep s (ErrorObject msg step) = ErrorObject msg (Some s)"
| "setStep s (Primitive v) = Primitive v"

text \<open>
  \<open>Math.round((a / b) * 100)\<close> is computed in floating point and is not a number when
  \<open>b\<close> is 0; the pipeline takes it as a function of the two sizes.
\<close>

datatype number = Finite int | NaN | Infinity

text \<open>
  The libraries of the pipeline, as parameters: \<open>base45.decode\<close>, \<open>pako.inflate\<close>,
  \<open>jwt.decode(token, {complete: true})\<close> (each returns a value or throws),
  \<open>Buffer.toString('hex')\<close>, \<open>JSON.stringify(v, null, 2)\<close> and the rounded
  percentage. Strings are sequences of UTF-8 bytes, so \<open>Buffer.byteLength(s, 'utf8')\<close>
  is the length.
\<close>

record libraries =
  base45Decode :: "string \<Rightarrow> thrown + string"
  inflate :: "string \<Rightarrow> thrown + string"
  jwtDecode :: "string \<Rightarrow> thrown + json"
  toHex :: "string \<Rightarrow> string"
  stringify :: "json \<Rightarrow> string"
  roundPercent :: "nat \<Rightarrow> nat \<Rightarrow> number"
  crypto :: platform

record step =
  stepName :: string
  stepData :: string
  stepSize :: nat
  stepPercentage :: number

text \<open>The country code that \<open>verifySignature\<close> reads from the payload.\<close>

definition upperAZ :: "char \<Rightarrow> bool" where
  "upperAZ c = (c \<in> set ''ABCDEFGHIJKLMNOPQRSTUVWXYZ'')"

definition twoUpper :: "string \<Rightarrow> bool" where
  "twoUpper part = (length part = 2 \<and> list_all upperAZ part)"

definition detectCountryCode :: "json \<Rightarrow> json" where
  "detectCountryCode payload =
     (case getprop payload ''iss'' of
        JStr iss \<Rightarrow>
          (if iss \<noteq> [] then
             (case find twoUpper (splitOn (CHR ''/'') iss) of
                Some part \<Rightarrow> JStr part
              | None \<Rightarrow> JStr ''BE'')
           else if js_truthy (getprop payload ''c'') then getprop payload ''c''
           else if js_truthy (getprop payload ''country'') then getprop payload ''country''
           else JStr ''BE'')
      | _ \<Rightarrow>
          (if js_truthy (getprop payload ''c'') then getprop payload ''c''
           else if js_truthy (getprop payload ''country'') then getprop payload ''country''
           else JStr ''BE''))"

definition issuersUrl :: string where
  "issuersUrl = ''https://resolver-test.ebsi.eu/api/v1/issuers?x509Thumbprint=''"

text \<open>The object that the \<open>catch\<close> branch of \<open>verifySignature\<close> returns for an error without a response.\<close>

definition verificationError :: "string \<Rightarrow> string \<Rightarrow> json" where
  "verificationError kind msg =
     JObj [(''error'', JStr ''Verification Error''), (''message'', JStr msg),
           (''details'', JStr (kind @ '': '' @ msg))]"

text \<open>
  \<open>verifySignature(jwtDecoded)\<close>: the thumbprint is the third \<open>:\<close>-separated part of
  \<open>kid\<close>; the registry client is asked with the cache consulted; the entry is then read
  back from the cache and reported, its hit count included. The result is the response
  object and the collection afterwards.
\<close>

definition verifySignature ::
  "platform \<Rightarrow> registry \<Rightarrow> nat \<Rightarrow> json \<Rightarrow> store \<Rightarrow> json \<times> store" where
  "verifySignature p reg now jwtDecoded st =
     (let header = getprop jwtDecoded ''header'' in
      if nullish header
      then (verificationError ''TypeError'' (typeErrorMessage p ''jwtDecoded.header.kid''), st)
      else
        (let kid = getprop header ''kid'' in
         if \<not> js_truthy kid then (verificationError ''Error'' ''No KID found in JWT header'', st)
         else
           (case kid of
              JStr kidText \<Rightarrow>
                (let kidParts = splitOn (CHR '':'') kidText in
                 if length kidParts < 3 \<or> kidParts ! 1 \<noteq> ''x5t#S256''
                 then (verificationError ''Error'' (''Invalid KID format: '' @ kidText), st)
                 else
                   (let x509Thumbprint = kidParts ! 2;
                        payload = getprop jwtDecoded ''payload'' in
                    if nullish payload
                    then (verificationError ''TypeError'' (typeErrorMessage p ''payload.iss''), st)
                    else
                      (let countryCode = detectCountryCode payload;
                           st1 = snd (checkThumbprintInBridge reg now x509Thumbprint False st);
                           cacheEntry = findOne x509Thumbprint st1;
                           cached = (case cacheEntry of
                                       Some entry \<Rightarrow> js_truthy (ebsiResponse entry)
                                     | None \<Rightarrow> False);
                           ebsiResponseData = (case cacheEntry of
                                       Some entry \<Rightarrow> if cached then ebsiResponse entry else JNull
                                     | None \<Rightarrow> JNull);
                           status = (case cacheEntry of
                                       Some entry \<Rightarrow>
                                         (if cached then
                                            (case lastStatus entry of
                                               Some s \<Rightarrow> if s \<noteq> 0 then s else 200
                                             | None \<Rightarrow> 200)
                                          else 200)
                                     | None \<Rightarrow> 200)
                       in (JObj [(''url'', JStr (issuersUrl
                                     @ normalized (normalizeThumbprintForEbsi x509Thumbprint))),
                                 (''status'', JNum (int status)),
                                 (''statusText'', JStr ''OK''),
                                 (''headers'', JObj [(''content-type'', JStr ''application/json'')]),
                                 (''data'', ebsiResponseData),
                                 (''extractedKid'', kid),
                                 (''extractedThumbprint'', JStr x509Thumbprint),
                                 (''detectedCountryCode'', countryCode),
                                 (''fromCache'', JBool (cacheEntry \<noteq> None)),
                                 (''cacheHitCount'',
                                    JNum (case cacheEntry of
                                            Some entry \<Rightarrow> int (hitCount entry)
                                          | None \<Rightarrow> 0))],
                           st1))))
            | _ \<Rightarrow> (verificationError ''TypeError'' (typeErrorMessage p ''kid.split''), st))))"

text \<open>
  Steps 5 and 6 of \<open>processVerificationData\<close>: the registry response, then the
  validation of the token against \<open>signatureResponse.data\<close>. Neither throws.
\<close>

definition signatureSteps ::
  "libraries \<Rightarrow> registry \<Rightarrow> nat \<Rightarrow> string \<Rightarrow> json \<Rightarrow> nat \<Rightarrow> store \<Rightarrow> step list \<times> store" where
  "signatureSteps L reg now token jwtDecoded jwtSize st =
     (let (signatureResponse, st1) = verifySignature (crypto L) reg now jwtDecoded st;
          responseString = stringify L signatureResponse;
          responseSize = length responseString;
          jwtValidationResult =
            fst (validateJwtSignature (crypto L) token (getprop signatureResponse ''data''));
          validationString = stringify L (validationJson (crypto L) jwtValidationResult);
          validationSize = length validationString
      in ([\<lparr>stepName = ''Signature Verification Response'', stepData = responseString,
             stepSize = responseSize, stepPercentage = roundPercent L responseSize jwtSize\<rparr>,
           \<lparr>stepName = ''JWT Signature Validation'', stepData = validationString,
             stepSize = validationSize,
             stepPercentage = roundPercent L validationSize responseSize\<rparr>],
          st1))"

text \<open>
  Steps 1 to 4, the decode stages: they read the input and the libraries only. The
  \<open>catch\<close> blocks are nested, so an error passes through every enclosing one and each
  sets \<open>step\<close> in turn; the outermost sets \<open>BASE45 decoding\<close>.
\<close>

definition decodeStages :: "libraries \<Rightarrow> string \<Rightarrow> thrown + (step list \<times> string \<times> json \<times> nat)" where
  "decodeStages L originalData =
     (let originalSize = length originalData;
          step1 = \<lparr>stepName = ''Original BASE45 String'', stepData = originalData,
                   stepSize = originalSize, stepPercentage = Finite 100\<rparr>
      in case base45Decode L originalData of
           Inl e \<Rightarrow> Inl (setStep ''BASE45 decoding'' e)
         | Inr base45Decoded \<Rightarrow>
             (let base45Size = length base45Decoded;
                  step2 = \<lparr>stepName = ''Decoded BASE45 (ZLIB Compressed)'',
                           stepData = toHex L base45Decoded, stepSize = base45Size,
                           stepPercentage = roundPercent L base45Size originalSize\<rparr>
              in case inflate L base45Decoded of
                   Inl e \<Rightarrow> Inl (setStep ''BASE45 decoding'' (setStep ''ZLIB decompression'' e))
                 | Inr zlibDecompressed \<Rightarrow>
                     (let zlibSize = length zlibDecompressed;
                          step3 = \<lparr>stepName = ''Decompressed ZLIB (JWT)'',
                                   stepData = zlibDecompressed, stepSize = zlibSize,
                                   stepPercentage = roundPercent L zlibSize base45Size\<rparr>
                      in case jwtDecode L zlibDecompressed of
                           Inl e \<Rightarrow>
                             Inl (setStep ''BASE45 decoding''
                                   (setStep ''ZLIB decompression'' (setStep ''JWT parsing'' e)))
                         | Inr jwtDecoded \<Rightarrow>
                             if js_truthy jwtDecoded then
                               (let jwtString = stringify L jwtDecoded;
                                    jwtSize = length jwtString;
                                    step4 = \<lparr>stepName = ''Parsed JWT (Clear Text)'',
                                             stepData = jwtString, stepSize = jwtSize,
                                             stepPercentage = roundPercent L jwtSize zlibSize\<rparr>
                                in Inr ([step1, step2, step3, step4],
                                        zlibDecompressed, jwtDecoded, jwtSize))
                             else Inl (ErrorObject ''Invalid JWT format''
                                         (Some ''BASE45 decoding'')))))"

text \<open>
  \<open>processVerificationData(originalData)\<close>: the steps of a run that succeeds, or what it
  throws; and the collection afterwards.
\<close>

definition processVerificationData ::
  "libraries \<Rightarrow> registry \<Rightarrow> nat \<Rightarrow> string \<Rightarrow> store \<Rightarrow> (thrown + step list) \<times> store" where
  "processVerificationData L reg now originalData st =
     (case decodeStages L originalData of
        Inl e \<Rightarrow> (Inl e, st)
      | Inr (steps, token, jwtDecoded, jwtSize) \<Rightarrow>
          (let (more, st1) = signatureSteps L reg now token jwtDecoded jwtSize st
           in (Inr (steps @ more), st1)))"

section \<open>Concrete inputs used in the evaluations below\<close>

definition sampleIssuer :: json where
  "sampleIssuer = JObj [(''officialId'', JStr ''BE-0001''), (''countryCode'', JStr ''BE''),
                        (''name'', JStr ''Institution''), (''publicKey'', JStr ''KEY'')]"

text \<open>A registry that answers every query with HTTP 503, and one that knows one issuer.\<close>

definition registryDown :: registry where
  "registryDown q = Failure ''Request failed with status code 503'' (Some 503)"

definition registryUp :: registry where
  "registryUp q = Response 200 (JArr [sampleIssuer])"

fun isFailure :: "http \<Rightarrow> bool" where
  "isFailure (Failure msg rs) = True"
| "isFailure (Response status body) = False"

text \<open>
  Stand-ins for the libraries, to run the pipeline on a concrete input: a compact JSON
  printer in place of \<open>JSON.stringify\<close> (like it, it prints a number in decimal digits
  and omits absent properties, which render as the empty text), exact rounding in place of the
  floating-point percentage, and decoders that know one scanned text, whose token has the
  header given. The crypto stand-in accepts one signature.
\<close>

fun commaSep :: "string list \<Rightarrow> string" where
  "commaSep [] = []"
| "commaSep [x] = x"
| "commaSep (x # y # ys) = x @ '','' @ commaSep (y # ys)"

primrec renderJson :: "json \<Rightarrow> string" where
  "renderJson JUndef = []"
| "renderJson JNull = ''null''"
| "renderJson (JBool b) = (if b then ''true'' else ''false'')"
| "renderJson (JNum n) = showInt n"
| "renderJson (JStr s) = [CHR 0x22] @ s @ [CHR 0x22]"
| "renderJson (JArr xs) = ''['' @ commaSep (map renderJson xs) @ '']''"
| "renderJson (JObj kvs) =
     ''{'' @ commaSep (map (\<lambda>kv. [CHR 0x22] @ fst kv @ [CHR 0x22] @ '':'' @ snd kv)
                         (filter (\<lambda>kv. snd kv \<noteq> []) (map (map_prod id renderJson) kvs))) @ ''}''"

text \<open>
  The string that a template literal makes of a value that converts: a string is
  itself, a number its digits, an object \<open>[object Object]\<close>, an array the texts of its
  elements joined by commas, with nothing for \<open>null\<close> and \<open>undefined\<close>.
\<close>

primrec templateText :: "json \<Rightarrow> string" where
  "templateText JUndef = ''undefined''"
| "templateText JNull = ''null''"
| "templateText (JBool b) = (if b then ''true'' else ''false'')"
| "templateText (JNum n) = showInt n"
| "templateText (JStr s) = s"
| "templateText (JArr xs) =
     commaSep (map (\<lambda>xt. if nullish (fst xt) then [] else snd xt) (zip xs (map templateText xs)))"
| "templateText (JObj kvs) = ''[object Object]''"

definition exactPercent :: "nat \<Rightarrow> nat \<Rightarrow> number" where
  "exactPercent a b = (if b = 0 then (if a = 0 then NaN else Infinity)
                       else Finite (int ((200 * a + b) div (2 * b))))"

definition sampleKid :: string where
  "sampleKid = ''EESSI:x5t#S256:DPNTPbCkYBEYz/ZucBtb8emHYDPXZDnv1Kf2f/iL+0g=''"

definition sampleThumbprint :: string where
  "sampleThumbprint = ''DPNTPbCkYBEYz/ZucBtb8emHYDPXZDnv1Kf2f/iL+0g=''"

definition samplePlatform :: "json \<Rightarrow> platform" where
  "samplePlatform header =
     \<lparr>parseSegment = (\<lambda>segment. if segment = ''aGVhZGVy'' then Some header else None),
      segmentBytes = (\<lambda>segment. (length segment * 3) div 4),
      templateString = templateText,
      typeErrorMessage = (\<lambda>expression. expression @ '' is not a function''),
      syntaxErrorMessage = (\<lambda>segment. ''Unexpected token''),
      createPublicKey = (\<lambda>jwk. Inr ''PEM''),
      x509PublicKey = (\<lambda>pem. Inr ''PEM''),
      x509FromValue = (\<lambda>v. Inl ''The argument must be of type string''),
      rsaVerify = (\<lambda>pem input signature. Inr (signature = ''c2ln''))\<rparr>"

definition sampleToken :: string where
  "sampleToken = ''aGVhZGVy.cGF5bG9hZA.c2ln''"

definition sampleJwt :: "json \<Rightarrow> json" where
  "sampleJwt header =
     JObj [(''header'', header),
           (''payload'', JObj [(''iss'', JStr ''https://example.org/BE/1'')]),
           (''signature'', JStr ''c2ln'')]"

definition sampleLibraries :: "json \<Rightarrow> libraries" where
  "sampleLibraries header =
     \<lparr>base45Decode = (\<lambda>text. if text = ''NCFOXN%TS3DH'' then Inr ''x''
                              else Inl (ErrorObject ''Invalid base45 string'' None)),
      inflate = (\<lambda>bytes. if bytes = ''x'' then Inr sampleToken
                          else Inl (Primitive ''incorrect header check'')),
      jwtDecode = (\<lambda>token. if token = sampleToken then Inr (sampleJwt header) else Inr JNull),
      toHex = (\<lambda>bytes. ''78''),
      stringify = renderJson,
      roundPercent = exactPercent,
      crypto = samplePlatform header\<rparr>"

definition rs256Header :: json where
  "rs256Header = JObj [(''alg'', JStr ''RS256''), (''typ'', JStr ''JWT''), (''kid'', JStr sampleKid)]"

definition hs256Header :: json where
  "hs256Header = JObj [(''alg'', JStr ''HS256''), (''typ'', JStr ''JWT''), (''kid'', JStr sampleKid)]"

text \<open>A stored entry with a successful response whose \<open>hitCount\<close> has reached 8.\<close>

definition seasonedEntry :: cacheEntry where
  "seasonedEntry =
     (fst (assignEbsiResponse 1 (JArr [sampleIssuer]) 200 None (newEntry 1 sampleThumbprint)))
       \<lparr>hitCount := 8\<rparr>"

text \<open>
  The stored entry of a successful first lookup at time 1, flagged for refresh
  afterwards by \<open>markAllForRefresh\<close>.
\<close>

definition flaggedEntry :: cacheEntry where
  "flaggedEntry =
     \<lparr>thumbprint = ''dGh1bWI'', found = JBool True, ebsiResponse = JArr [sampleIssuer],
      publicKey = JStr ''KEY'',
      issuerInfo = \<lparr>officialId = JStr ''BE-0001'', countryCode = JStr ''BE'',
                    name = JStr ''Institution''\<rparr>,
      lastChecked = 1, hitCount = 2, needsRefresh = True, source = verification,
      lastStatus = Some 200, lastError = None\<rparr>"

text \<open>The response object of \<open>verifySignature\<close> for the sample token, by reported hit count.\<close>

definition sampleResponse :: "int \<Rightarrow> json" where
  "sampleResponse hits =
     JObj [(''url'', JStr (issuersUrl @ ''DPNTPbCkYBEYz_ZucBtb8emHYDPXZDnv1Kf2f_iL-0g'')),
           (''status'', JNum 200),
           (''statusText'', JStr ''OK''),
           (''headers'', JObj [(''content-type'', JStr ''application/json'')]),
           (''data'', JArr [sampleIssuer]),
           (''extractedKid'', JStr sampleKid),
           (''extractedThumbprint'', JStr sampleThumbprint),
           (''detectedCountryCode'', JStr ''BE''),
           (''fromCache'', JBool True),
           (''cacheHitCount'', JNum hits)]"

text \<open>Registry data in the shape that \<open>validateJwtSignature\<close> reads, with one RSA JWK.\<close>

definition rsaKeyData :: json where
  "rsaKeyData =
     JObj [(''results'',
            JArr [JObj [(''officialId'', JStr ''BE-0001''),
                        (''publicKeys'', JArr [JObj [(''kty'', JStr ''RSA''),
                                                     (''n'', JStr ''AQAB''),
                                                     (''e'', JStr ''AQAB'')]])]])]"

section \<open>Auxiliary notions for the refresher\<close>

text \<open>
  A field of an issuer record that a String path stores as it is: a string, or absent or
  \<open>null\<close>. A registry answer that is a JSON list whose first record, when it is one
  that the update reads (a truthy first element), has such fields. And the relation
  between an entry before and after the entries with thumbprints in \<open>T\<close> have been
  refreshed with such answers: same thumbprint, still with its required fields,
  unflagged if its thumbprint is in \<open>T\<close> and untouched otherwise.
\<close>

fun plainText :: "json \<Rightarrow> bool" where
  "plainText JUndef = True"
| "plainText JNull = True"
| "plainText (JStr s) = True"
| "plainText v = False"

definition plainIssuer :: "json \<Rightarrow> bool" where
  "plainIssuer issuer =
     (plainText (getprop issuer ''publicKey'') \<and> plainText (getprop issuer ''officialId'')
      \<and> plainText (getprop issuer ''countryCode'') \<and> plainText (getprop issuer ''name''))"

fun answersList :: "http \<Rightarrow> bool" where
  "answersList (Response status body) = (isArray body \<and> plainIssuer (first_elem body))"
| "answersList (Failure msg rs) = False"

definition refreshed :: "string set \<Rightarrow> cacheEntry \<Rightarrow> cacheEntry \<Rightarrow> bool" where
  "refreshed T e e' =
     (thumbprint e' = thumbprint e \<and> requiredPresent e'
      \<and> (if thumbprint e \<in> T then \<not> needsRefresh e' else e' = e))"

section \<open>Properties of the thumbprint normalizer\<close>

lemma to_url_body_pad:
  assumes "list_all base64_alphabet b"
  shows "base64ToBase64Url (b @ replicate p (CHR ''='')) =
         replace_char (CHR ''/'') (CHR ''_'') (replace_char (CHR ''+'') (CHR ''-'') b)"
  using assms
  by (induction b)
     (auto simp: base64ToBase64Url_def replace_char_def remove_char_def base64_alphabet_def)

lemma from_url_body:
  assumes "list_all base64_alphabet b"
  shows "replace_char (CHR ''_'') (CHR ''/'') (replace_char (CHR ''-'') (CHR ''+'')
           (replace_char (CHR ''/'') (CHR ''_'') (replace_char (CHR ''+'') (CHR ''-'') b))) = b"
  using assms
  by (induction b) (auto simp: replace_char_def base64_alphabet_def)

lemma all_eq_replicate: "list_all (\<lambda>c. c = a) xs \<Longrightarrow> xs = replicate (length xs) a"
  by (induction xs) auto

lemma roundtrip_body_pad:
  assumes b: "list_all base64_alphabet b" and p: "p \<le> 2" and l: "(length b + p) mod 4 = 0"
  shows "base64UrlToBase64 (base64ToBase64Url (b @ replicate p (CHR ''='')))
           = b @ replicate p (CHR ''='')"
proof -
  have pad: "length b mod 4 = (if p = 0 then 0 else 4 - p)"
    using p l by (cases "p = 0"; cases "p = 1"; cases "p = 2") presburger+
  show ?thesis
    using p unfolding to_url_body_pad [OF b] base64UrlToBase64_def from_url_body [OF b]
    by (auto simp: Let_def pad)
qed

text \<open>
  C3. For every standard-base64 string that contains at least one of \<open>+\<close>, \<open>/\<close>,
  \<open>=\<close>, converting it to URL-safe form and back recovers it character for character:
  \<open>base64UrlToBase64 (base64ToBase64Url s) = s\<close>.
\<close>

theorem normalizer_round_trip:
  assumes "standard_base64 s" and "hasBase64Chars s"
  shows "base64UrlToBase64 (base64ToBase64Url s) = s"
proof -
  define body where "body = takeWhile (\<lambda>c. c \<noteq> CHR ''='') s"
  define pad where "pad = dropWhile (\<lambda>c. c \<noteq> CHR ''='') s"
  have s: "s = body @ pad" by (simp add: body_def pad_def)
  from assms(1) have b: "list_all base64_alphabet body"
    and e: "list_all (\<lambda>c. c = CHR ''='') pad"
    and p: "length pad \<le> 2" and l: "length s mod 4 = 0"
    by (simp_all add: standard_base64_def Let_def body_def pad_def)
  have pad: "pad = replicate (length pad) (CHR ''='')" using e by (rule all_eq_replicate)
  have "(length body + length pad) mod 4 = 0" using l s by simp
  from roundtrip_body_pad [OF b p this] show ?thesis using s pad by simp
qed

theorem normalizer_round_trip_witness:
  "standard_base64 ''DPNTPbCkYBEYz/ZucBtb8emHYDPXZDnv1Kf2f/iL+0g='' \<and>
   hasBase64Chars ''DPNTPbCkYBEYz/ZucBtb8emHYDPXZDnv1Kf2f/iL+0g='' \<and>
   base64UrlToBase64 (base64ToBase64Url ''DPNTPbCkYBEYz/ZucBtb8emHYDPXZDnv1Kf2f/iL+0g='')
     = ''DPNTPbCkYBEYz/ZucBtb8emHYDPXZDnv1Kf2f/iL+0g=''"
proof -
  have a: "standard_base64 ''DPNTPbCkYBEYz/ZucBtb8emHYDPXZDnv1Kf2f/iL+0g=''"
    by (simp add: standard_base64_def base64_alphabet_def)
  have b: "hasBase64Chars ''DPNTPbCkYBEYz/ZucBtb8emHYDPXZDnv1Kf2f/iL+0g=''"
    by (simp add: hasBase64Chars_def str_includes_def)
  from normalizer_round_trip [OF a b] a b show ?thesis by simp
qed

lemma hasBase64Chars_markers: "hasBase64Chars t \<longleftrightarrow> set t \<inter> spec_standardMarkers \<noteq> {}"
  by (auto simp: hasBase64Chars_def str_includes_def spec_standardMarkers_def)

lemma hasBase64UrlChars_markers: "hasBase64UrlChars t \<longleftrightarrow> set t \<inter> spec_urlSafeMarkers \<noteq> {}"
  by (auto simp: hasBase64UrlChars_def str_includes_def spec_urlSafeMarkers_def)

lemma toUrlSafe_no_url_markers:
  "CHR ''-'' \<notin> set t \<Longrightarrow> CHR ''_'' \<notin> set t \<Longrightarrow> base64ToBase64Url t = spec_toUrlSafe t"
  by (induction t)
     (auto simp: base64ToBase64Url_def spec_toUrlSafe_def replace_char_def remove_char_def)

text \<open>
  C4. The normalizer applies the four-branch policy and reports the branch that fired:
  standard markers and no URL-safe marker, the output is the URL-safe conversion; URL-safe
  markers only, or no marker at all, or both kinds (the degraded, mixed case, reported as
  \<open>mixed-encoding-kept-as-is\<close>), the output is the input unchanged.
\<close>

theorem normalizer_policy:
  "(set t \<inter> spec_standardMarkers \<noteq> {} \<and> set t \<inter> spec_urlSafeMarkers = {} \<longrightarrow>
      normalizeThumbprintForEbsi t =
        \<lparr>normalized = spec_toUrlSafe t, conversionApplied = ''base64-to-base64url'', original = t\<rparr>)
   \<and> (set t \<inter> spec_urlSafeMarkers \<noteq> {} \<and> set t \<inter> spec_standardMarkers = {} \<longrightarrow>
      normalizeThumbprintForEbsi t =
        \<lparr>normalized = t, conversionApplied = ''already-base64url'', original = t\<rparr>)
   \<and> (set t \<inter> spec_standardMarkers = {} \<and> set t \<inter> spec_urlSafeMarkers = {} \<longrightarrow>
      normalizeThumbprintForEbsi t =
        \<lparr>normalized = t, conversionApplied = ''assumed-base64url'', original = t\<rparr>)
   \<and> (set t \<inter> spec_standardMarkers \<noteq> {} \<and> set t \<inter> spec_urlSafeMarkers \<noteq> {} \<longrightarrow>
      normalizeThumbprintForEbsi t =
        \<lparr>normalized = t, conversionApplied = ''mixed-encoding-kept-as-is'', original = t\<rparr>)"
proof -
  have conv: "set t \<inter> spec_urlSafeMarkers = {} \<Longrightarrow> base64ToBase64Url t = spec_toUrlSafe t"
    by (rule toUrlSafe_no_url_markers) (auto simp: spec_urlSafeMarkers_def)
  show ?thesis
    unfolding normalizeThumbprintForEbsi_def hasBase64Chars_markers hasBase64UrlChars_markers
    using conv by simp
qed

theorem normalizer_policy_witness:
  "normalizeThumbprintForEbsi ''a+b/c='' =
     \<lparr>normalized = ''a-b_c'', conversionApplied = ''base64-to-base64url'', original = ''a+b/c=''\<rparr>
   \<and> normalizeThumbprintForEbsi ''a-b_c'' =
     \<lparr>normalized = ''a-b_c'', conversionApplied = ''already-base64url'', original = ''a-b_c''\<rparr>
   \<and> normalizeThumbprintForEbsi ''abc'' =
     \<lparr>normalized = ''abc'', conversionApplied = ''assumed-base64url'', original = ''abc''\<rparr>
   \<and> normalizeThumbprintForEbsi ''a+b_c'' =
     \<lparr>normalized = ''a+b_c'', conversionApplied = ''mixed-encoding-kept-as-is'', original = ''a+b_c''\<rparr>"
  using normalizer_policy [of "''a+b/c=''"] normalizer_policy [of "''a-b_c''"]
        normalizer_policy [of "''abc''"] normalizer_policy [of "''a+b_c''"]
  by (simp add: spec_standardMarkers_def spec_urlSafeMarkers_def spec_toUrlSafe_def)
section \<open>Properties of the trust cache and the registry client\<close>

lemma foundValue_cases:
  "foundValue r = (if \<not> js_truthy r then r else if isArray r then JBool (0 < js_length r) else JBool False)"
  by (cases r) (auto simp: foundValue_def js_and_def)

lemma foundValue_True: "foundValue r = JBool True \<longleftrightarrow> (\<exists>x xs. r = JArr (x # xs))"
proof (cases r)
  case (JArr ys)
  then show ?thesis by (cases ys) (auto simp: foundValue_cases)
qed (auto simp: foundValue_cases)

lemma getprop_falsy: "\<not> js_truthy v \<Longrightarrow> getprop v k = JUndef"
  by (cases v) auto

lemma foundValue_Cons: "foundValue (JArr (x # xs)) = JBool True"
  by (simp add: foundValue_cases)

lemma foundValue_array: "isArray r \<Longrightarrow> foundValue r = JBool (0 < js_length r)"
  by (cases r) (simp_all add: foundValue_cases)

lemma castError_plain: "plainText v \<Longrightarrow> castError castString path v = []"
  by (cases v) (simp_all add: castError_def)

lemma castError_plain_key: "plainText v \<Longrightarrow> castError castString path (js_or v JNull) = []"
  by (cases v) (simp_all add: castError_def js_or_def)

lemma assign_fields:
  "needsRefresh (fst (assignEbsiResponse now response status error this)) = False"
  "hitCount (fst (assignEbsiResponse now response status error this)) = hitCount this + 1"
  "thumbprint (fst (assignEbsiResponse now response status error this)) = thumbprint this"
  "ebsiResponse (fst (assignEbsiResponse now response status error this)) = response"
  "lastStatus (fst (assignEbsiResponse now response status error this)) = Some status"
  "lastError (fst (assignEbsiResponse now response status error this)) = error"
  "lastChecked (fst (assignEbsiResponse now response status error this)) = now"
  by (simp_all add: assignEbsiResponse_def Let_def)

lemma assign_found_array:
  "isArray r \<Longrightarrow> found (fst (assignEbsiResponse now r status error this)) = JBool (0 < js_length r)"
  by (simp add: assignEbsiResponse_def Let_def foundValue_array castValue_def)

lemma castError_bool: "castError castBoolean path (JBool b) = []"
  by (simp add: castError_def)

lemma assign_plain:
  assumes "isArray r" and "plainIssuer (first_elem r)"
  shows "snd (assignEbsiResponse now r status error this) = []"
  using assms
  by (simp add: assignEbsiResponse_def Let_def foundValue_array castError_bool
      plainIssuer_def castError_plain castError_plain_key)

lemma schemaValid_assign:
  "isArray r \<Longrightarrow> plainIssuer (first_elem r) \<Longrightarrow> thumbprint e \<noteq> [] \<Longrightarrow>
   schemaValid (assignEbsiResponse now r s err e)"
  by (auto simp: schemaValid_def requiredPresent_def assign_plain assign_fields assign_found_array)

lemma assign_sample:
  "assignEbsiResponse now (JArr [sampleIssuer]) 200 None this =
     (this\<lparr>found := JBool True, ebsiResponse := JArr [sampleIssuer], publicKey := JStr ''KEY'',
           issuerInfo := \<lparr>officialId = JStr ''BE-0001'', countryCode = JStr ''BE'',
                          name = JStr ''Institution''\<rparr>,
           lastChecked := now, hitCount := hitCount this + 1, needsRefresh := False,
           lastStatus := Some 200, lastError := None\<rparr>, [])"
  by (simp add: assignEbsiResponse_def Let_def foundValue_Cons castValue_def castError_def
      sampleIssuer_def js_or_def)

lemma failed_update_document:
  "found (fst (assignEbsiResponse now JNull status error this)) = JNull"
  "ebsiResponse (fst (assignEbsiResponse now JNull status error this)) = JNull"
  "publicKey (fst (assignEbsiResponse now JNull status error this)) = JNull"
  "issuerInfo (fst (assignEbsiResponse now JNull status error this)) = emptyIssuerInfo"
  "\<not> schemaValid (assignEbsiResponse now JNull status error this)"
  "updateWithEbsiResponse now JNull status error this st = None"
  by (simp_all add: updateWithEbsiResponse_def save_def assignEbsiResponse_def Let_def
      foundValue_cases castValue_def schemaValid_def requiredPresent_def)

lemma recordFailure_store: "recordFailure now t msg rs st = (JBool False, st)"
  by (simp add: recordFailure_def upsert_def failed_update_document)

lemma findOne_single: "thumbprint e = t \<Longrightarrow> findOne t [e] = Some e"
  by (simp add: findOne_def)

lemma findOne_empty: "findOne t [] = None"
  by (simp add: findOne_def)

lemma save_single:
  "schemaValid d \<Longrightarrow> thumbprint (fst d) = thumbprint e \<Longrightarrow> save d [e] = Some [fst d]"
  by (simp add: save_def)

lemma save_empty: "schemaValid d \<Longrightarrow> save d [] = Some [fst d]"
  by (simp add: save_def)

lemma array_truthy: "isArray r \<Longrightarrow> js_truthy r"
  by (cases r) simp_all

lemma castString_plain: "castString v = Some c \<Longrightarrow> plainText c"
  by (cases v) (auto split: option.splits json.splits if_splits)

lemma castValue_plain: "plainText v \<Longrightarrow> castValue castString old v = v"
  by (cases v) (simp_all add: castValue_def)

lemma castValue_plain_key:
  "plainText v \<Longrightarrow> castValue castString old (js_or v JNull) = js_or v JNull"
  by (cases v) (simp_all add: castValue_def js_or_def)

text \<open>
  A document that the assignments leave without a cast error has values of the schema's
  types in its String paths.
\<close>

lemma assign_typed:
  assumes "snd (assignEbsiResponse now r status error this) = []"
  shows "plainText (publicKey (fst (assignEbsiResponse now r status error this)))"
    and "plainText (officialId (issuerInfo (fst (assignEbsiResponse now r status error this))))"
    and "plainText (countryCode (issuerInfo (fst (assignEbsiResponse now r status error this))))"
    and "plainText (name (issuerInfo (fst (assignEbsiResponse now r status error this))))"
  using assms
  by (auto simp: assignEbsiResponse_def Let_def castValue_def castError_def emptyIssuerInfo_def
      castString_plain split: if_splits option.splits)

text \<open>
  What the update stores for a list whose first record has string fields: the document
  is accepted, \<open>found\<close> tells whether the list is non-empty, the flag is cleared, the
  count has grown by one, and the key and issuer fields are those of the first record.
\<close>

lemma list_response_update_stored:
  assumes "isArray r" and "plainIssuer (first_elem r)" and "thumbprint e \<noteq> []"
  shows "\<exists>e'. updateWithEbsiResponse now r status error e [e] = Some [e']
           \<and> found e' = JBool (0 < js_length r) \<and> \<not> needsRefresh e'
           \<and> hitCount e' = hitCount e + 1
           \<and> (0 < js_length r \<and> js_truthy (first_elem r) \<longrightarrow>
                publicKey e' = js_or (getprop (first_elem r) ''publicKey'') JNull
                \<and> issuerInfo e' = \<lparr>officialId = getprop (first_elem r) ''officialId'',
                                    countryCode = getprop (first_elem r) ''countryCode'',
                                    name = getprop (first_elem r) ''name''\<rparr>)"
proof -
  have v: "schemaValid (assignEbsiResponse now r status error e)"
    using assms by (rule schemaValid_assign)
  have k: "0 < js_length r \<and> js_truthy (first_elem r) \<longrightarrow>
      publicKey (fst (assignEbsiResponse now r status error e))
        = js_or (getprop (first_elem r) ''publicKey'') JNull
      \<and> issuerInfo (fst (assignEbsiResponse now r status error e))
        = \<lparr>officialId = getprop (first_elem r) ''officialId'',
           countryCode = getprop (first_elem r) ''countryCode'',
           name = getprop (first_elem r) ''name''\<rparr>"
    using assms(1,2)
    by (simp add: assignEbsiResponse_def Let_def foundValue_array castValue_def [of castBoolean]
        plainIssuer_def castValue_plain castValue_plain_key array_truthy)
  show ?thesis
    using k by (simp add: updateWithEbsiResponse_def save_single [OF v] assign_fields
        assign_found_array [OF assms(1)])
qed

text \<open>
  Three responses with ill-typed content. A numeric \<open>publicKey\<close> is stored as its text;
  a \<open>publicKey\<close> that is an object raises a cast error and the update is rejected; the
  response \<open>0\<close> gives \<open>found = 0\<close>, which the Boolean path stores as \<open>false\<close>.
\<close>

lemma cast_examples:
  "map_option (map publicKey)
     (upsert 1 ''dGh1bWI'' (JArr [JObj [(''publicKey'', JNum 5)]]) 200 None []) = Some [JStr ''5'']"
  "upsert 1 ''dGh1bWI'' (JArr [JObj [(''publicKey'', JObj [(''kty'', JStr ''RSA'')])]]) 200 None []
     = None"
  "map_option (map found) (upsert 1 ''dGh1bWI'' (JNum 0) 200 None []) = Some [JBool False]"
  by (simp_all add: upsert_def updateWithEbsiResponse_def findOrCreate_def findOne_empty save_def
      schemaValid_def requiredPresent_def assignEbsiResponse_def Let_def foundValue_cases
      castValue_def castError_def js_or_def newEntry_def showInt_def digitChar_def)

lemma upsert_first:
  "t \<noteq> [] \<Longrightarrow>
   upsert now t (JArr [sampleIssuer]) 200 None [] =
     Some [(newEntry now t)\<lparr>found := JBool True, ebsiResponse := JArr [sampleIssuer],
             publicKey := JStr ''KEY'',
             issuerInfo := \<lparr>officialId = JStr ''BE-0001'', countryCode = JStr ''BE'',
                            name = JStr ''Institution''\<rparr>,
             lastChecked := now, hitCount := 2, needsRefresh := False,
             lastStatus := Some 200, lastError := None\<rparr>]"
  by (simp add: upsert_def updateWithEbsiResponse_def findOrCreate_def findOne_empty assign_sample
      save_def schemaValid_def requiredPresent_def newEntry_def)

lemma lookup_first:
  "t \<noteq> [] \<Longrightarrow>
   checkThumbprintInBridge registryUp now t force [] =
     (JBool True,
      [(newEntry now t)\<lparr>found := JBool True, ebsiResponse := JArr [sampleIssuer],
             publicKey := JStr ''KEY'',
             issuerInfo := \<lparr>officialId = JStr ''BE-0001'', countryCode = JStr ''BE'',
                            name = JStr ''Institution''\<rparr>,
             lastChecked := now, hitCount := 2, needsRefresh := False,
             lastStatus := Some 200, lastError := None\<rparr>])"
  by (simp add: checkThumbprintInBridge_def findOne_empty registryUp_def upsert_first
      foundValue_Cons)

lemma flagged_reached:
  "markAllForRefresh (snd (checkThumbprintInBridge registryUp 1 ''dGh1bWI'' False [])) = [flaggedEntry]"
  by (simp add: lookup_first markAllForRefresh_def flaggedEntry_def newEntry_def)

text \<open>
  C2, evaluated where it fails. The entry of a successful first lookup, flagged for
  refresh, is updated with \<open>updateWithEbsiResponse(null, 503, message)\<close>, the call that
  the \<open>catch\<close> branch of the registry client makes. The assignments leave
  \<open>found = null\<close> in the document, \<open>save()\<close> rejects it, and the method's promise is
  rejected with nothing written: the cache entry still has \<open>needsRefresh = true\<close> and
  \<open>hitCount = 2\<close>. The same call with the empty list is stored: \<open>found = false\<close>,
  \<open>needsRefresh = false\<close>, \<open>hitCount = 3\<close>.
\<close>

theorem null_response_update_rejected:
  "markAllForRefresh (snd (checkThumbprintInBridge registryUp 1 ''dGh1bWI'' False [])) = [flaggedEntry]
   \<and> needsRefresh flaggedEntry \<and> hitCount flaggedEntry = 2
   \<and> updateWithEbsiResponse 2 JNull 503 (Some ''Request failed with status code 503'')
        flaggedEntry [flaggedEntry] = None
   \<and> found (fst (assignEbsiResponse 2 JNull 503 (Some ''Request failed with status code 503'')
                   flaggedEntry)) = JNull
   \<and> map_option (map (\<lambda>e. (found e, needsRefresh e, hitCount e)))
        (updateWithEbsiResponse 2 (JArr []) 200 None flaggedEntry [flaggedEntry])
      = Some [(JBool False, False, 3)]"
proof (intro conjI)
  show "markAllForRefresh (snd (checkThumbprintInBridge registryUp 1 ''dGh1bWI'' False []))
          = [flaggedEntry]"
    by (rule flagged_reached)
  show "needsRefresh flaggedEntry" and "hitCount flaggedEntry = 2"
    by (simp_all add: flaggedEntry_def)
  show "updateWithEbsiResponse 2 JNull 503 (Some ''Request failed with status code 503'')
          flaggedEntry [flaggedEntry] = None"
    by (rule failed_update_document)
  show "found (fst (assignEbsiResponse 2 JNull 503 (Some ''Request failed with status code 503'')
                     flaggedEntry)) = JNull"
    by (rule failed_update_document)
  have v: "schemaValid (assignEbsiResponse 2 (JArr []) 200 None flaggedEntry)"
    by (rule schemaValid_assign) (simp_all add: plainIssuer_def flaggedEntry_def)
  show "map_option (map (\<lambda>e. (found e, needsRefresh e, hitCount e)))
          (updateWithEbsiResponse 2 (JArr []) 200 None flaggedEntry [flaggedEntry])
        = Some [(JBool False, False, 3)]"
    by (simp add: updateWithEbsiResponse_def save_single [OF v] assign_fields assign_found_array)
       (simp add: flaggedEntry_def)
qed

text \<open>
  C1, evaluated where it fails. On an empty cache and with a registry that knows the
  issuer, the first call for a thumbprint stores an entry whose \<open>hitCount\<close> is 2:
  after one forced lookup (one upsert, no cache consultation), after one upsert made
  directly, and after one ordinary lookup; a second ordinary lookup, which hits the
  cache, leaves 3.
\<close>

theorem first_call_counts_twice:
  "map hitCount (snd (checkThumbprintInBridge registryUp 1 ''dGh1bWI'' True [])) = [2]
   \<and> map_option (map hitCount) (upsert 1 ''dGh1bWI'' (JArr [sampleIssuer]) 200 None []) = Some [2]
   \<and> map hitCount (snd (checkThumbprintInBridge registryUp 1 ''dGh1bWI'' False [])) = [2]
   \<and> map hitCount (snd (checkThumbprintInBridge registryUp 2 ''dGh1bWI'' False
                            (snd (checkThumbprintInBridge registryUp 1 ''dGh1bWI'' False []))))
      = [3]"
proof (intro conjI)
  show "map hitCount (snd (checkThumbprintInBridge registryUp 1 ''dGh1bWI'' True [])) = [2]"
    by (simp add: lookup_first)
  show "map_option (map hitCount) (upsert 1 ''dGh1bWI'' (JArr [sampleIssuer]) 200 None [])
          = Some [2]"
    by (simp add: upsert_first)
  show "map hitCount (snd (checkThumbprintInBridge registryUp 1 ''dGh1bWI'' False [])) = [2]"
    by (simp add: lookup_first)
  show "map hitCount (snd (checkThumbprintInBridge registryUp 2 ''dGh1bWI'' False
                            (snd (checkThumbprintInBridge registryUp 1 ''dGh1bWI'' False []))))
      = [3]"
    by (simp add: lookup_first)
       (simp add: checkThumbprintInBridge_def findOne_def countHit_def save_def schemaValid_def
          requiredPresent_def newEntry_def)
qed

lemma forced_failure_store:
  "isFailure (reg (normalized (normalizeThumbprintForEbsi t))) \<Longrightarrow>
   checkThumbprintInBridge reg now t True st = (JBool False, st)"
  by (cases "reg (normalized (normalizeThumbprintForEbsi t))")
     (simp_all add: checkThumbprintInBridge_def recordFailure_store)

lemma miss_failure_store:
  "isFailure (reg (normalized (normalizeThumbprintForEbsi t))) \<Longrightarrow> findOne t st = None \<Longrightarrow>
   checkThumbprintInBridge reg now t False st = (JBool False, st)"
  by (cases "reg (normalized (normalizeThumbprintForEbsi t))")
     (simp_all add: checkThumbprintInBridge_def recordFailure_store)

text \<open>
  C5, evaluated where it fails. The registry answers 503 for a thumbprint that the cache
  does not hold: the lookup returns \<open>false\<close>, but the collection is still empty
  afterwards. The document that the \<open>catch\<close> branch builds has \<open>found = null\<close>,
  \<open>lastStatus = 503\<close> and the error message, and \<open>save()\<close> rejects it.
\<close>

theorem failed_lookup_leaves_no_entry:
  "checkThumbprintInBridge registryDown 1 ''dGh1bWI'' False [] = (JBool False, [])
   \<and> found (fst (assignEbsiResponse 1 JNull 503 (Some ''Request failed with status code 503'')
                   (findOrCreate 1 ''dGh1bWI'' []))) = JNull
   \<and> upsert 1 ''dGh1bWI'' JNull 503 (Some ''Request failed with status code 503'') [] = None"
proof -
  have "checkThumbprintInBridge registryDown 1 ''dGh1bWI'' False [] = (JBool False, [])"
    by (rule miss_failure_store) (simp_all add: registryDown_def findOne_def)
  then show ?thesis
    by (simp add: upsert_def failed_update_document)
qed

text \<open>
  C10, evaluated where it fails. An entry that recorded a successful response is looked
  up again with \<open>forceRefresh\<close> while the registry answers 503: the collection is the
  same afterwards, so the stored entry still has \<open>found = true\<close> and the response,
  key and issuer information of the earlier answer, and a flag \<open>needsRefresh\<close> stays set.
\<close>

theorem failed_refresh_keeps_cached_material:
  "snd (checkThumbprintInBridge registryDown 2 ''dGh1bWI'' True
          (markAllForRefresh (snd (checkThumbprintInBridge registryUp 1 ''dGh1bWI'' False []))))
   = [\<lparr>thumbprint = ''dGh1bWI'', found = JBool True, ebsiResponse = JArr [sampleIssuer],
       publicKey = JStr ''KEY'',
       issuerInfo = \<lparr>officialId = JStr ''BE-0001'', countryCode = JStr ''BE'',
                     name = JStr ''Institution''\<rparr>,
       lastChecked = 1, hitCount = 2, needsRefresh = True, source = verification,
       lastStatus = Some 200, lastError = None\<rparr>]"
proof -
  have down: "\<And>st. snd (checkThumbprintInBridge registryDown 2 ''dGh1bWI'' True st) = st"
    by (simp add: forced_failure_store registryDown_def)
  show ?thesis
    unfolding down flagged_reached by (simp add: flaggedEntry_def)
qed

section \<open>Properties of the background refresher\<close>

lemma refreshEntry_failure:
  "\<forall>k q. isFailure (reg k q) \<Longrightarrow> fst (refreshEntry reg clock e w) = fst w"
  by (simp add: refreshEntry_def forced_failure_store)

lemma fold_refreshEntry_failure:
  "\<forall>k q. isFailure (reg k q) \<Longrightarrow> fst (fold (refreshEntry reg clock) es w) = fst w"
  by (induction es arbitrary: w) (simp_all add: refreshEntry_failure)

lemma refreshBatch_failure:
  "\<forall>k q. isFailure (reg k q) \<Longrightarrow> fst (refreshBatch reg clock w) = fst w"
  by (simp add: refreshBatch_def fold_refreshEntry_failure)

lemma refresh_never_returns:
  assumes "refreshCacheInBackground reg clock w = Some y"
  shows "(\<forall>k q. isFailure (reg k q)) \<longrightarrow> 0 < countNeedsRefresh (fst w) \<longrightarrow> False"
proof (rule refreshCacheInBackground.raw_induct
         [where P = "\<lambda>reg clock w y. (\<forall>k q. isFailure (reg k q)) \<longrightarrow> 0 < countNeedsRefresh (fst w) \<longrightarrow> False",
          OF _ assms])
  fix rcb :: "(nat \<Rightarrow> registry) \<Rightarrow> (nat \<Rightarrow> nat) \<Rightarrow> store \<times> nat \<Rightarrow> (store \<times> nat) option"
  fix reg clock w y
  assume IH: "\<And>reg clock w y. rcb reg clock w = Some y \<Longrightarrow>
                (\<forall>k q. isFailure (reg k q)) \<longrightarrow> 0 < countNeedsRefresh (fst w) \<longrightarrow> False"
    and step: "(let w' = refreshBatch reg clock w
                in if 0 < countNeedsRefresh (fst w') then rcb reg clock w' else Some w') = Some y"
  show "(\<forall>k q. isFailure (reg k q)) \<longrightarrow> 0 < countNeedsRefresh (fst w) \<longrightarrow> False"
  proof (intro impI)
    assume f: "\<forall>k q. isFailure (reg k q)" and n: "0 < countNeedsRefresh (fst w)"
    have same: "fst (refreshBatch reg clock w) = fst w" using f by (rule refreshBatch_failure)
    with n step have "rcb reg clock (refreshBatch reg clock w) = Some y"
      by (simp add: Let_def)
    from IH [of reg clock "refreshBatch reg clock w" y, OF this] f n same show False by simp
  qed
qed

lemma refresh_diverges:
  assumes "\<forall>k q. isFailure (reg k q)" and "0 < countNeedsRefresh (fst w)"
  shows "refreshCacheInBackground reg clock w = None"
proof (cases "refreshCacheInBackground reg clock w")
  case (Some y)
  from refresh_never_returns [OF this] assms show ?thesis by simp
qed simp

lemma findOne_member:
  "t \<in> thumbprint ` set st \<Longrightarrow> \<exists>e. findOne t st = Some e \<and> e \<in> set st \<and> thumbprint e = t"
  unfolding findOne_def
  by (induction st) auto

lemma list_ex_thumbprint: "list_ex (\<lambda>e. thumbprint e = t) st \<longleftrightarrow> t \<in> thumbprint ` set st"
  by (auto simp: list_ex_iff)

lemma forced_list_store:
  assumes "reg (normalized (normalizeThumbprintForEbsi t)) = Response status body"
    and "isArray body \<and> plainIssuer (first_elem body)"
    and "t \<in> thumbprint ` set st" and "list_all requiredPresent st"
  shows "list_all2 (refreshed {t}) st (snd (checkThumbprintInBridge reg now t True st))"
proof -
  from findOne_member [OF assms(3)] obtain e where
    e: "findOne t st = Some e" "e \<in> set st" "thumbprint e = t" by blast
  from assms(4) e(2) have "requiredPresent e" by (simp add: list_all_iff)
  then have t: "t \<noteq> []" using e(3) by (auto simp: requiredPresent_def)
  define d where "d = assignEbsiResponse now body status None e"
  have v: "schemaValid d"
    unfolding d_def using assms(2) t e(3) by (simp add: schemaValid_assign)
  have doc: "thumbprint (fst d) = t" "requiredPresent (fst d)" "\<not> needsRefresh (fst d)"
    using v e(3) by (simp_all add: d_def assign_fields schemaValid_def)
  have "snd (checkThumbprintInBridge reg now t True st)
          = map (\<lambda>x. if thumbprint x = t then fst d else x) st"
    using assms(1,3) e(1) doc v
    by (simp add: checkThumbprintInBridge_def upsert_def updateWithEbsiResponse_def
        findOrCreate_def save_def list_ex_thumbprint d_def)
  moreover have "list_all2 (refreshed {t}) st (map (\<lambda>x. if thumbprint x = t then fst d else x) st)"
    using assms(4) doc by (induction st) (auto simp: refreshed_def)
  ultimately show ?thesis by simp
qed

lemma refreshed_trans:
  "list_all2 (refreshed T) st st1 \<Longrightarrow> list_all2 (refreshed {t}) st1 st2 \<Longrightarrow>
   list_all2 (refreshed (insert t T)) st st2"
proof (induction st st1 arbitrary: st2 rule: list_all2_induct)
  case Nil
  then show ?case by simp
next
  case (Cons e st e1 st1)
  from Cons.prems obtain e2 rest where st2: "st2 = e2 # rest" and
    h: "refreshed {t} e1 e2" and r: "list_all2 (refreshed {t}) st1 rest"
    by (cases st2) auto
  have "refreshed (insert t T) e e2"
    using Cons.hyps(1) h by (auto simp: refreshed_def split: if_splits)
  with Cons.IH [OF r] st2 show ?case by simp
qed

lemma refreshed_thumbprints:
  "list_all2 (refreshed T) st st' \<Longrightarrow> thumbprint ` set st' = thumbprint ` set st"
  by (induction st st' rule: list_all2_induct) (auto simp: refreshed_def)

lemma refreshed_valid: "list_all2 (refreshed T) st st' \<Longrightarrow> list_all requiredPresent st'"
  by (induction st st' rule: list_all2_induct) (auto simp: refreshed_def)

lemma refreshed_empty: "list_all requiredPresent st \<Longrightarrow> list_all2 (refreshed {}) st st"
  by (induction st) (auto simp: refreshed_def)

lemma fold_refreshed:
  assumes "\<forall>k q. answersList (reg k q)"
  shows "list_all2 (refreshed T) st0 (fst w) \<Longrightarrow> thumbprint ` set es \<subseteq> thumbprint ` set st0 \<Longrightarrow>
         list_all2 (refreshed (T \<union> thumbprint ` set es)) st0
           (fst (fold (refreshEntry reg clock) es w))"
proof (induction es arbitrary: w T)
  case Nil
  then show ?case by simp
next
  case (Cons e es)
  obtain status body where a: "reg (snd w) (normalized (normalizeThumbprintForEbsi (thumbprint e)))
      = Response status body" and b: "isArray body \<and> plainIssuer (first_elem body)"
    using assms by (metis answersList.elims(2))
  have mem: "thumbprint e \<in> thumbprint ` set (fst w)"
    using Cons.prems refreshed_thumbprints by fastforce
  have "list_all2 (refreshed {thumbprint e}) (fst w) (fst (refreshEntry reg clock e w))"
    unfolding refreshEntry_def fst_conv
    by (rule forced_list_store [where reg = "reg (snd w)", OF a b mem refreshed_valid [OF Cons.prems(1)]])
  with Cons.prems(1) have "list_all2 (refreshed (insert (thumbprint e) T)) st0
      (fst (refreshEntry reg clock e w))" by (rule refreshed_trans)
  from Cons.IH [OF this] Cons.prems(2) show ?case by simp
qed

lemma count_refreshed:
  "list_all2 (refreshed T) st st' \<Longrightarrow>
   countNeedsRefresh st' \<le> length (filter (\<lambda>e. needsRefresh e \<and> thumbprint e \<notin> T) st)"
  unfolding countNeedsRefresh_def
  by (induction st st' rule: list_all2_induct) (auto simp: refreshed_def split: if_splits)

lemma filter_drops_one:
  "e \<in> set st \<Longrightarrow> P e \<Longrightarrow> \<not> Q e \<Longrightarrow> length (filter (\<lambda>x. P x \<and> Q x) st) < length (filter P st)"
proof (induction st)
  case Nil
  then show ?case by simp
next
  case (Cons x st)
  have le: "length (filter (\<lambda>x. P x \<and> Q x) st) \<le> length (filter P st)"
    by (induction st) auto
  show ?case
  proof (cases "x = e")
    case True
    with Cons.prems le show ?thesis by (simp add: le_imp_less_Suc)
  next
    case False
    with Cons show ?thesis by auto
  qed
qed

lemma batch_decreases:
  assumes "\<forall>k q. answersList (reg k q)" and "list_all requiredPresent (fst w)"
    and "0 < countNeedsRefresh (fst w)"
  shows "countNeedsRefresh (fst (refreshBatch reg clock w)) < countNeedsRefresh (fst w)
         \<and> list_all requiredPresent (fst (refreshBatch reg clock w))"
proof -
  define es where "es = getEntriesNeedingRefresh 50 (fst w)"
  have sub: "set es \<subseteq> set (filter needsRefresh (fst w))"
    unfolding es_def getEntriesNeedingRefresh_def by (rule set_take_subset)
  have ne: "es \<noteq> []"
    using assms(3) by (auto simp: es_def getEntriesNeedingRefresh_def countNeedsRefresh_def)
  then obtain e where e: "e \<in> set es" by (cases es) auto
  with sub have e2: "e \<in> set (fst w)" "needsRefresh e" by auto
  have "thumbprint ` set es \<subseteq> thumbprint ` set (fst w)" using sub by auto
  from fold_refreshed [OF assms(1) refreshed_empty [OF assms(2)] this]
  have r: "list_all2 (refreshed (thumbprint ` set es)) (fst w) (fst (refreshBatch reg clock w))"
    by (simp add: refreshBatch_def es_def)
  have "countNeedsRefresh (fst (refreshBatch reg clock w))
      \<le> length (filter (\<lambda>x. needsRefresh x \<and> thumbprint x \<notin> thumbprint ` set es) (fst w))"
    by (rule count_refreshed [OF r])
  also have "\<dots> < length (filter needsRefresh (fst w))"
    using filter_drops_one [where P = needsRefresh
        and Q = "\<lambda>x. thumbprint x \<notin> thumbprint ` set es" and e = e and st = "fst w"]
      e e2 by simp
  finally show ?thesis using refreshed_valid [OF r] by (simp add: countNeedsRefresh_def)
qed

text \<open>
  The other side of C8: when every re-query is answered with a list (of records whose
  fields are strings), every batch clears the flag of the entries it takes, and the
  refresher completes with no entry flagged.
\<close>

lemma refresher_completes:
  assumes "\<forall>k q. answersList (reg k q)"
  shows "list_all requiredPresent (fst w) \<Longrightarrow>
         \<exists>w'. refreshCacheInBackground reg clock w = Some w' \<and> countNeedsRefresh (fst w') = 0"
proof (induction "countNeedsRefresh (fst w)" arbitrary: w rule: less_induct)
  case less
  define w1 where "w1 = refreshBatch reg clock w"
  show ?case
  proof (cases "0 < countNeedsRefresh (fst w1)")
    case False
    then show ?thesis
      by (subst refreshCacheInBackground.simps) (simp add: Let_def w1_def)
  next
    case True
    have pos: "0 < countNeedsRefresh (fst w)"
    proof (rule ccontr)
      assume "\<not> 0 < countNeedsRefresh (fst w)"
      then have "getEntriesNeedingRefresh 50 (fst w) = []"
        by (simp add: countNeedsRefresh_def getEntriesNeedingRefresh_def)
      then have "w1 = w" by (simp add: w1_def refreshBatch_def)
      with True \<open>\<not> 0 < countNeedsRefresh (fst w)\<close> show False by simp
    qed
    from batch_decreases [OF assms less.prems pos]
    have d: "countNeedsRefresh (fst w1) < countNeedsRefresh (fst w)" "list_all requiredPresent (fst w1)"
      by (simp_all add: w1_def)
    from less.hyps [OF d] obtain w' where
      "refreshCacheInBackground reg clock w1 = Some w'" "countNeedsRefresh (fst w') = 0" by blast
    then show ?thesis using True
      by (subst refreshCacheInBackground.simps) (simp add: Let_def w1_def)
  qed
qed

text \<open>
  C8, evaluated where it fails. One flagged entry, and a registry that answers every
  re-query with 503: no batch clears the flag, every run reschedules the next, and the
  refresher never completes.
\<close>

theorem refresher_never_completes_when_registry_down:
  "refreshCacheInBackground (\<lambda>k. registryDown) (\<lambda>k. k)
     (markAllForRefresh (snd (checkThumbprintInBridge registryUp 1 ''dGh1bWI'' False [])), 0) = None"
proof (rule refresh_diverges)
  show "\<forall>k q. isFailure (registryDown q)" by (simp add: registryDown_def)
  show "0 < countNeedsRefresh (fst (markAllForRefresh
          (snd (checkThumbprintInBridge registryUp 1 ''dGh1bWI'' False [])), 0::nat))"
    unfolding fst_conv flagged_reached by (simp add: countNeedsRefresh_def flaggedEntry_def)
qed

section \<open>Properties of the signature validator\<close>

lemma validate_three_parts:
  assumes "splitOn (CHR ''.'') jwtToken = [headerB64, payloadB64, signatureB64]"
    and "parseSegment p headerB64 = Some header"
  shows "validateJwtSignature p jwtToken publicKeyData =
     (if nullish header then (Rejected (TypeError ''header.alg''), [])
      else if \<not> nullish (getprop header ''kid'') \<and> \<not> isString (getprop header ''kid'')
      then (Rejected (TypeError ''header.kid?.substring''), [])
      else if js_or (getprop header ''alg'') (JStr ''RS256'') \<noteq> JStr ''RS256''
      then (if \<not> stringConvertible (js_or (getprop header ''alg'') (JStr ''RS256''))
            then (Rejected (TypeError ''String(algorithm)''), [])
            else (Rejected (UnsupportedAlgorithm (js_or (getprop header ''alg'') (JStr ''RS256''))), []))
      else verifyWithKey p headerB64 payloadB64 signatureB64
             (js_or (getprop header ''alg'') (JStr ''RS256'')) publicKeyData)"
  using assms by (simp add: validateJwtSignature_def Let_def)

lemma truthy_prop_not_nullish: "js_truthy (getprop v k) \<Longrightarrow> \<not> nullish v"
  by (cases v) auto

lemma sampleToken_parts: "splitOn (CHR ''.'') sampleToken = [''aGVhZGVy'', ''cGF5bG9hZA'', ''c2ln'']"
  by (simp add: sampleToken_def)

lemma samplePlatform_parse: "parseSegment (samplePlatform header) ''aGVhZGVy'' = Some header"
  by (simp add: samplePlatform_def)

lemma resolve_sample:
  "resolveKey (samplePlatform h) rsaKeyData =
     (Inr (JObj [(''officialId'', JStr ''BE-0001''),
      (''publicKeys'', JArr [JObj [(''kty'', JStr ''RSA''), (''n'', JStr ''AQAB''),
                                   (''e'', JStr ''AQAB'')]])], ''PEM''),
      [ConvertRsaJwkToPem (JObj [(''kty'', JStr ''RSA''), (''n'', JStr ''AQAB''),
                                   (''e'', JStr ''AQAB'')])])"
  by (simp add: resolveKey_def rsaKeyData_def nonEmptyArray_def Let_def convertRsaJwkToPem_def
      samplePlatform_def)

lemma verify_sample:
  "rsaVerify (samplePlatform h) ''PEM'' (''aGVhZGVy'' @ ''.'' @ ''cGF5bG9hZA'') ''c2ln'' = Inr True"
  by (simp add: samplePlatform_def)

lemma string_converts: "isString v \<Longrightarrow> stringConvertible v"
  by (cases v) simp_all

text \<open>
  C6 (as amended). For every three-part token whose header parses to a value with a truthy
  \<open>alg\<close> other than \<open>RS256\<close>, \<open>validateJwtSignature\<close> returns
  \<open>signatureValid = false\<close> and has called neither key conversion nor verification;
  and when \<open>kid\<close> is absent or a string and \<open>alg\<close> is a string, or another value that
  a template literal converts to one, the error is the unsupported-algorithm one.
\<close>

theorem unsupported_algorithm_rejected:
  assumes "splitOn (CHR ''.'') jwtToken = [headerB64, payloadB64, signatureB64]"
    and "parseSegment p headerB64 = Some header"
    and "js_truthy (getprop header ''alg'')"
    and "getprop header ''alg'' \<noteq> JStr ''RS256''"
  shows "\<not> signatureValid (fst (validateJwtSignature p jwtToken publicKeyData))
         \<and> snd (validateJwtSignature p jwtToken publicKeyData) = []
         \<and> ((nullish (getprop header ''kid'') \<or> isString (getprop header ''kid''))
              \<and> (isString (getprop header ''alg'') \<or> stringConvertible (getprop header ''alg''))
            \<longrightarrow> validateJwtSignature p jwtToken publicKeyData
                  = (Rejected (UnsupportedAlgorithm (getprop header ''alg'')), []))"
proof -
  have "\<not> nullish header" using assms(3) by (rule truthy_prop_not_nullish)
  moreover have "js_or (getprop header ''alg'') (JStr ''RS256'') = getprop header ''alg''"
    using assms(3) by (simp add: js_or_def)
  ultimately show ?thesis
    using assms(4) string_converts [of "getprop header ''alg''"]
    by (auto simp: validate_three_parts [OF assms(1,2)])
qed

theorem unsupported_algorithm_rejected_witness:
  "validateJwtSignature (samplePlatform hs256Header) sampleToken rsaKeyData
     = (Rejected (UnsupportedAlgorithm (JStr ''HS256'')), [])
   \<and> \<not> signatureValid (fst (validateJwtSignature (samplePlatform hs256Header) sampleToken
                               rsaKeyData))"
  using unsupported_algorithm_rejected
          [OF sampleToken_parts samplePlatform_parse, of hs256Header rsaKeyData]
  by (simp add: hs256Header_def sampleKid_def)

lemma convert_not_unsupported:
  "convertRsaJwkToPem p jwk = Inl e \<Longrightarrow> e \<noteq> UnsupportedAlgorithm a"
  by (auto simp: convertRsaJwkToPem_def split: if_splits sum.splits)

lemma extract_not_unsupported:
  "extractPublicKeyFromX509 p cert = Inl e \<Longrightarrow> e \<noteq> UnsupportedAlgorithm a"
  by (auto simp: extractPublicKeyFromX509_def Let_def split: json.splits sum.splits)

lemma resolve_not_unsupported:
  "fst (resolveKey p publicKeyData) = Inl e \<Longrightarrow> e \<noteq> UnsupportedAlgorithm a"
  by (auto simp: resolveKey_def Let_def split: if_splits sum.splits
      dest: convert_not_unsupported extract_not_unsupported)

lemma verifyWithKey_not_unsupported:
  "fst (verifyWithKey p h pl sg alg publicKeyData) \<noteq> Rejected (UnsupportedAlgorithm a)"
proof (cases "resolveKey p publicKeyData")
  case (Pair r calls)
  show ?thesis
  proof (cases r)
    case (Inl e)
    with Pair resolve_not_unsupported [of p publicKeyData e a] show ?thesis
      by (simp add: verifyWithKey_def Let_def)
  next
    case (Inr key)
    with Pair show ?thesis
      by (cases key) (simp add: verifyWithKey_def Let_def split: sum.splits)
  qed
qed

lemma verifyWithKey_called:
  assumes "resolveKey p publicKeyData = (Inr (issuerData, pem), calls)"
  shows "snd (verifyWithKey p h pl sg alg publicKeyData) = calls @ [Verify pem (h @ ''.'' @ pl) sg]"
  using assms by (simp add: verifyWithKey_def Let_def split: sum.splits)

lemma verifyWithKey_resolved:
  assumes "resolveKey p publicKeyData = (Inr (issuerData, pem), calls)"
    and "rsaVerify p pem (h @ ''.'' @ pl) sg = Inr ok"
  shows "signatureValid (fst (verifyWithKey p h pl sg alg publicKeyData)) = ok"
  using assms by (simp add: verifyWithKey_def Let_def)

text \<open>
  C9 (as amended). For every three-part token whose parsed header is not \<open>null\<close> and
  has no \<open>alg\<close> field, the validator does not fail with the unsupported-algorithm
  error; and when \<open>kid\<close> is absent or a string, its result is that of the \<open>RS256\<close>
  path, which resolves the key from the registry data: when the key resolves, the
  verifier is called on \<open>header.payload\<close> with that key and the signature, and when
  it answers, its answer is \<open>signatureValid\<close>.
\<close>

theorem missing_algorithm_defaults_to_rs256:
  assumes "splitOn (CHR ''.'') jwtToken = [headerB64, payloadB64, signatureB64]"
    and "parseSegment p headerB64 = Some header"
    and "\<not> nullish header"
    and "getprop header ''alg'' = JUndef"
  shows "fst (validateJwtSignature p jwtToken publicKeyData) \<noteq> Rejected (UnsupportedAlgorithm a)
         \<and> (nullish (getprop header ''kid'') \<or> isString (getprop header ''kid'') \<longrightarrow>
              validateJwtSignature p jwtToken publicKeyData
                = verifyWithKey p headerB64 payloadB64 signatureB64 (JStr ''RS256'') publicKeyData
              \<and> (resolveKey p publicKeyData = (Inr (issuerData, pem), calls) \<longrightarrow>
                   snd (validateJwtSignature p jwtToken publicKeyData)
                     = calls @ [Verify pem (headerB64 @ ''.'' @ payloadB64) signatureB64]
                   \<and> (rsaVerify p pem (headerB64 @ ''.'' @ payloadB64) signatureB64 = Inr ok \<longrightarrow>
                        signatureValid (fst (validateJwtSignature p jwtToken publicKeyData)) = ok)))"
proof -
  have alg: "js_or (getprop header ''alg'') (JStr ''RS256'') = JStr ''RS256''"
    using assms(4) by (simp add: js_or_def)
  have eq: "validateJwtSignature p jwtToken publicKeyData
           = (if \<not> nullish (getprop header ''kid'') \<and> \<not> isString (getprop header ''kid'')
              then (Rejected (TypeError ''header.kid?.substring''), [])
              else verifyWithKey p headerB64 payloadB64 signatureB64 (JStr ''RS256'') publicKeyData)"
    unfolding validate_three_parts [OF assms(1,2)] alg using assms(3) by simp
  have ne: "fst (validateJwtSignature p jwtToken publicKeyData) \<noteq> Rejected (UnsupportedAlgorithm a)"
    unfolding eq using verifyWithKey_not_unsupported [of p headerB64 payloadB64 signatureB64]
    by simp
  have ok: "nullish (getprop header ''kid'') \<or> isString (getprop header ''kid'') \<longrightarrow>
              validateJwtSignature p jwtToken publicKeyData
                = verifyWithKey p headerB64 payloadB64 signatureB64 (JStr ''RS256'') publicKeyData
              \<and> (resolveKey p publicKeyData = (Inr (issuerData, pem), calls) \<longrightarrow>
                   snd (validateJwtSignature p jwtToken publicKeyData)
                     = calls @ [Verify pem (headerB64 @ ''.'' @ payloadB64) signatureB64]
                   \<and> (rsaVerify p pem (headerB64 @ ''.'' @ payloadB64) signatureB64 = Inr ok \<longrightarrow>
                        signatureValid (fst (validateJwtSignature p jwtToken publicKeyData)) = ok))"
    unfolding eq by (auto simp: verifyWithKey_resolved verifyWithKey_called)
  from ne ok show ?thesis by (intro conjI)
qed

theorem missing_algorithm_defaults_to_rs256_witness:
  "signatureValid (fst (validateJwtSignature (samplePlatform (JObj [(''typ'', JStr ''JWT'')]))
                          sampleToken rsaKeyData))
   \<and> snd (validateJwtSignature (samplePlatform (JObj [(''typ'', JStr ''JWT'')])) sampleToken rsaKeyData)
      = [ConvertRsaJwkToPem (JObj [(''kty'', JStr ''RSA''), (''n'', JStr ''AQAB''),
                                   (''e'', JStr ''AQAB'')]),
         Verify ''PEM'' ''aGVhZGVy.cGF5bG9hZA'' ''c2ln'']"
proof -
  have r: "resolveKey (samplePlatform (JObj [(''typ'', JStr ''JWT'')])) rsaKeyData =
     (Inr (JObj [(''officialId'', JStr ''BE-0001''),
      (''publicKeys'', JArr [JObj [(''kty'', JStr ''RSA''), (''n'', JStr ''AQAB''),
                                   (''e'', JStr ''AQAB'')]])], ''PEM''),
      [ConvertRsaJwkToPem (JObj [(''kty'', JStr ''RSA''), (''n'', JStr ''AQAB''),
                                   (''e'', JStr ''AQAB'')])])"
    by (rule resolve_sample)
  have v: "rsaVerify (samplePlatform (JObj [(''typ'', JStr ''JWT'')])) ''PEM''
             (''aGVhZGVy'' @ ''.'' @ ''cGF5bG9hZA'') ''c2ln'' = Inr True"
    by (rule verify_sample)
  have n: "\<not> nullish (JObj [(''typ'', JStr ''JWT'')])"
    by simp
  have a: "getprop (JObj [(''typ'', JStr ''JWT'')]) ''alg'' = JUndef"
    by simp
  have k: "nullish (getprop (JObj [(''typ'', JStr ''JWT'')]) ''kid'')
       \<or> isString (getprop (JObj [(''typ'', JStr ''JWT'')]) ''kid'')"
    by simp
  note t = missing_algorithm_defaults_to_rs256
         [OF sampleToken_parts samplePlatform_parse n a, where publicKeyData = rsaKeyData
          and a = JNull, THEN conjunct2, rule_format, OF k, THEN conjunct2, rule_format, OF r]
  from t [THEN conjunct1] t [THEN conjunct2, rule_format, OF v]
  show ?thesis by simp
qed

text \<open>
  C9 as the specification states it fails on three inputs without an \<open>alg\<close> field. A
  header with a numeric \<open>kid\<close> is rejected by the TypeError of the debug line, with good
  key data and no call of the verifier. A header with no \<open>kid\<close>, validated against
  registry data that is a list (the shape that the pipeline passes), is rejected for the
  shape of the data, again with no call of the verifier. And a header that is \<open>null\<close>
  is rejected by the TypeError of reading \<open>header.alg\<close>.
\<close>

theorem missing_algorithm_counterexample:
  "validateJwtSignature (samplePlatform (JObj [(''typ'', JStr ''JWT''), (''kid'', JNum 5)]))
      sampleToken rsaKeyData = (Rejected (TypeError ''header.kid?.substring''), [])
   \<and> validateJwtSignature (samplePlatform (JObj [(''typ'', JStr ''JWT'')]))
      sampleToken (JArr [sampleIssuer]) = (Rejected InvalidRegistryResponse, [])
   \<and> validateJwtSignature (samplePlatform JNull) sampleToken rsaKeyData
      = (Rejected (TypeError ''header.alg''), [])"
  by (simp add: validate_three_parts [OF sampleToken_parts samplePlatform_parse] js_or_def
      verifyWithKey_def resolveKey_def nonEmptyArray_def Let_def)

section \<open>Properties of the verification pipeline\<close>

lemma process_steps:
  "decodeStages L s = Inr (steps, token, j, n) \<Longrightarrow>
   processVerificationData L reg now s st =
     (Inr (steps @ fst (signatureSteps L reg now token j n st)),
      snd (signatureSteps L reg now token j n st))"
  by (simp add: processVerificationData_def split: prod.splits)

lemma process_failure:
  "decodeStages L s = Inl e \<Longrightarrow> processVerificationData L reg now s st = (Inl e, st)"
  by (simp add: processVerificationData_def)

lemma decodeStages_four:
  "decodeStages L s = Inr (steps, token, j, n) \<Longrightarrow> length steps = 4"
  by (auto simp: decodeStages_def Let_def split: sum.splits if_splits)

text \<open>
  C7 (as amended). Running the pipeline again on the same input gives the same outcome of
  the decode stages, whatever the cache holds, the registry answers and the clock reads:
  the same thrown error, or the same first four stage records (original text, BASE45
  decoded, inflated, parsed token) with the same payloads, sizes and percentages.
\<close>

theorem decode_stages_repeatable:
  "map_sum id (take 4) (fst (processVerificationData L reg now s st))
     = map_sum id (take 4) (fst (processVerificationData L reg' now' s st'))"
proof (cases "decodeStages L s")
  case (Inl e)
  then show ?thesis by (simp add: process_failure)
next
  case (Inr r)
  then obtain steps token j n where r: "decodeStages L s = Inr (steps, token, j, n)"
    by (cases r) auto
  from decodeStages_four [OF r] show ?thesis by (simp add: process_steps [OF r])
qed

lemma signatureSteps_sizes:
  "map stepSize (fst (signatureSteps L reg now token j n st)) =
     [length (stringify L (fst (verifySignature (crypto L) reg now j st))),
      length (stringify L (validationJson (crypto L)
         (fst (validateJwtSignature (crypto L) token
                 (getprop (fst (verifySignature (crypto L) reg now j st)) ''data'')))))]"
  by (simp add: signatureSteps_def Let_def split: prod.splits)

lemma signatureSteps_store:
  "snd (signatureSteps L reg now token j n st) = snd (verifySignature (crypto L) reg now j st)"
  by (simp add: signatureSteps_def Let_def split: prod.splits)

lemma decode_sample:
  "\<exists>steps. decodeStages (sampleLibraries h) ''NCFOXN%TS3DH''
              = Inr (steps, sampleToken, sampleJwt h, length (renderJson (sampleJwt h)))
           \<and> map stepSize steps = [12, 1, 24, length (renderJson (sampleJwt h))]"
  by (simp add: decodeStages_def sampleLibraries_def Let_def sampleToken_def sampleJwt_def)

lemma kid_parts:
  "splitOn (CHR '':'') sampleKid = [''EESSI'', ''x5t#S256'', sampleThumbprint]"
  by (simp add: sampleKid_def sampleThumbprint_def)

lemma country_sample:
  "detectCountryCode (JObj [(''iss'', JStr ''https://example.org/BE/1'')]) = JStr ''BE''"
  by (simp add: detectCountryCode_def twoUpper_def upperAZ_def)

lemma normalized_sample:
  "normalized (normalizeThumbprintForEbsi sampleThumbprint) = ''DPNTPbCkYBEYz_ZucBtb8emHYDPXZDnv1Kf2f_iL-0g''"
  by (simp add: normalizeThumbprintForEbsi_def sampleThumbprint_def hasBase64Chars_def
      hasBase64UrlChars_def str_includes_def base64ToBase64Url_def replace_char_def remove_char_def)

lemma seasoned_fields:
  "thumbprint (seasonedEntry\<lparr>hitCount := k\<rparr>) = sampleThumbprint"
  "found (seasonedEntry\<lparr>hitCount := k\<rparr>) = JBool True"
  "ebsiResponse (seasonedEntry\<lparr>hitCount := k\<rparr>) = JArr [sampleIssuer]"
  "lastStatus (seasonedEntry\<lparr>hitCount := k\<rparr>) = Some 200"
  "hitCount (seasonedEntry\<lparr>hitCount := k\<rparr>) = k"
  "seasonedEntry\<lparr>hitCount := k, hitCount := k'\<rparr> = seasonedEntry\<lparr>hitCount := k'\<rparr>"
  by (simp_all add: seasonedEntry_def assign_sample newEntry_def)

lemma thumbprint_nonempty: "sampleThumbprint \<noteq> []"
  by (simp add: sampleThumbprint_def)

lemma lookup_seasoned:
  "checkThumbprintInBridge reg now sampleThumbprint False [seasonedEntry\<lparr>hitCount := k\<rparr>]
     = (JBool True, [seasonedEntry\<lparr>hitCount := k + 1\<rparr>])"
  by (simp add: checkThumbprintInBridge_def findOne_def seasoned_fields countHit_def save_def
      schemaValid_def requiredPresent_def thumbprint_nonempty)

lemma kid_nonempty: "sampleKid \<noteq> []"
  by (simp add: sampleKid_def)

lemma verify_seasoned:
  "verifySignature p reg now (sampleJwt rs256Header) [seasonedEntry\<lparr>hitCount := k\<rparr>]
     = (sampleResponse (int (k + 1)), [seasonedEntry\<lparr>hitCount := k + 1\<rparr>])"
  by (simp add: verifySignature_def sampleJwt_def rs256Header_def kid_parts country_sample
      Let_def lookup_seasoned findOne_def seasoned_fields normalized_sample sampleResponse_def
      kid_nonempty)

lemma validate_array_data:
  "splitOn (CHR ''.'') token = [h, pl, sg] \<Longrightarrow> parseSegment p h = Some rs256Header \<Longrightarrow>
   validateJwtSignature p token (JArr xs) = (Rejected InvalidRegistryResponse, [])"
  by (simp add: validateJwtSignature_def rs256Header_def js_or_def Let_def verifyWithKey_def
      resolveKey_def nonEmptyArray_def)

lemma crypto_sample: "crypto (sampleLibraries h) = samplePlatform h"
  "stringify (sampleLibraries h) = renderJson"
  by (simp_all add: sampleLibraries_def)

lemma response_data: "getprop (sampleResponse k) ''data'' = JArr [sampleIssuer]"
  by (simp add: sampleResponse_def)

lemma size_jwt: "length (renderJson (sampleJwt rs256Header)) = 170"
  by (simp add: sampleJwt_def rs256Header_def sampleKid_def)

lemma size_response_9: "length (renderJson (sampleResponse 9)) = 490"
  by (simp add: sampleResponse_def issuersUrl_def sampleIssuer_def sampleKid_def
      sampleThumbprint_def showInt_def digitChar_def)

lemma size_response_10: "length (renderJson (sampleResponse 10)) = 491"
  by (simp add: sampleResponse_def issuersUrl_def sampleIssuer_def sampleKid_def
      sampleThumbprint_def showInt_def digitChar_def)

lemma size_rejected:
  "length (renderJson (validationJson (samplePlatform h) (Rejected InvalidRegistryResponse))) = 119"
  by simp

lemma sizes_seasoned:
  "map_sum id (map stepSize)
      (fst (processVerificationData (sampleLibraries rs256Header) reg now ''NCFOXN%TS3DH''
              [seasonedEntry\<lparr>hitCount := k\<rparr>]))
     = Inr [12, 1, 24, 170, length (renderJson (sampleResponse (int (k + 1)))), 119]
   \<and> snd (processVerificationData (sampleLibraries rs256Header) reg now ''NCFOXN%TS3DH''
              [seasonedEntry\<lparr>hitCount := k\<rparr>]) = [seasonedEntry\<lparr>hitCount := k + 1\<rparr>]"
proof -
  define L where "L = sampleLibraries rs256Header"
  define st where "st = [seasonedEntry\<lparr>hitCount := k\<rparr>]"
  from decode_sample [of rs256Header] obtain steps where
    ds: "decodeStages (sampleLibraries rs256Header) ''NCFOXN%TS3DH''
          = Inr (steps, sampleToken, sampleJwt rs256Header, length (renderJson (sampleJwt rs256Header)))
         \<and> map stepSize steps = [12, 1, 24, length (renderJson (sampleJwt rs256Header))]" ..
  from ds have d: "decodeStages L ''NCFOXN%TS3DH''
          = Inr (steps, sampleToken, sampleJwt rs256Header, length (renderJson (sampleJwt rs256Header)))"
    unfolding L_def by (rule conjunct1)
  from ds have s: "map stepSize steps = [12, 1, 24, length (renderJson (sampleJwt rs256Header))]"
    by (rule conjunct2)
  have c: "crypto L = samplePlatform rs256Header" and r: "stringify L = renderJson"
    unfolding L_def by (rule crypto_sample)+
  have vs: "verifySignature (samplePlatform rs256Header) reg now (sampleJwt rs256Header) st
      = (sampleResponse (int (k + 1)), [seasonedEntry\<lparr>hitCount := k + 1\<rparr>])"
    unfolding st_def by (rule verify_seasoned)
  have v: "validateJwtSignature (samplePlatform rs256Header) sampleToken (JArr [sampleIssuer])
      = (Rejected InvalidRegistryResponse, [])"
    by (rule validate_array_data [OF sampleToken_parts samplePlatform_parse])
  have sz: "map stepSize (fst (signatureSteps L reg now sampleToken (sampleJwt rs256Header)
                (length (renderJson (sampleJwt rs256Header))) st))
      = [length (renderJson (sampleResponse (int (k + 1)))), 119]"
    unfolding signatureSteps_sizes c r vs fst_conv response_data v size_rejected ..
  have store: "snd (signatureSteps L reg now sampleToken (sampleJwt rs256Header)
                (length (renderJson (sampleJwt rs256Header))) st)
      = [seasonedEntry\<lparr>hitCount := k + 1\<rparr>]"
    unfolding signatureSteps_store c vs snd_conv ..
  have "map_sum id (map stepSize) (fst (processVerificationData L reg now ''NCFOXN%TS3DH'' st))
      = Inr (map stepSize steps @ [length (renderJson (sampleResponse (int (k + 1)))), 119])"
    unfolding process_steps [OF d] fst_conv map_sum.simps map_append sz ..
  moreover have "snd (processVerificationData L reg now ''NCFOXN%TS3DH'' st)
      = [seasonedEntry\<lparr>hitCount := k + 1\<rparr>]"
    unfolding process_steps [OF d] snd_conv store ..
  ultimately show ?thesis
    unfolding s size_jwt L_def st_def by simp
qed

text \<open>
  C7 as the specification states it fails. The response of the signature stage reports
  the hit count of the cache entry, which every run increments: with an entry that has
  been hit eight times, the first run reports 9 and the second 10, and the size of the
  fifth stage record differs between the two runs (490 and 491 bytes under the printer
  used here).
\<close>

theorem pipeline_rerun_counterexample:
  "map_sum id (map stepSize)
     (fst (processVerificationData (sampleLibraries rs256Header) registryUp 1 ''NCFOXN%TS3DH''
             [seasonedEntry]))
     = Inr [12, 1, 24, 170, 490, 119]
   \<and> map_sum id (map stepSize)
     (fst (processVerificationData (sampleLibraries rs256Header) registryUp 2 ''NCFOXN%TS3DH''
             (snd (processVerificationData (sampleLibraries rs256Header) registryUp 1
                     ''NCFOXN%TS3DH'' [seasonedEntry]))))
     = Inr [12, 1, 24, 170, 491, 119]"
proof -
  have e: "seasonedEntry = seasonedEntry\<lparr>hitCount := 8\<rparr>"
    by (simp add: seasonedEntry_def)
  have one: "map_sum id (map stepSize)
      (fst (processVerificationData (sampleLibraries rs256Header) registryUp 1 ''NCFOXN%TS3DH''
              [seasonedEntry\<lparr>hitCount := 8\<rparr>]))
     = Inr [12, 1, 24, 170, 490, 119]"
    and st: "snd (processVerificationData (sampleLibraries rs256Header) registryUp 1 ''NCFOXN%TS3DH''
              [seasonedEntry\<lparr>hitCount := 8\<rparr>]) = [seasonedEntry\<lparr>hitCount := 9\<rparr>]"
    using sizes_seasoned [of registryUp 1 8] by (simp_all add: size_response_9)
  have two: "map_sum id (map stepSize)
      (fst (processVerificationData (sampleLibraries rs256Header) registryUp 2 ''NCFOXN%TS3DH''
              [seasonedEntry\<lparr>hitCount := 9\<rparr>]))
     = Inr [12, 1, 24, 170, 491, 119]"
    using sizes_seasoned [of registryUp 2 9] by (simp add: size_response_10)
  show ?thesis
    using one two st e by simp
qed

lemma lookup_fresh:
  "checkThumbprintInBridge registryUp now sampleThumbprint False []
     = (JBool True,
        [(newEntry now sampleThumbprint)\<lparr>found := JBool True, ebsiResponse := JArr [sampleIssuer],
             publicKey := JStr ''KEY'',
             issuerInfo := \<lparr>officialId = JStr ''BE-0001'', countryCode = JStr ''BE'',
                            name = JStr ''Institution''\<rparr>,
             lastChecked := now, hitCount := 2, needsRefresh := False,
             lastStatus := Some 200, lastError := None\<rparr>])"
  by (rule lookup_first [OF thumbprint_nonempty])

lemma verify_fresh_store:
  "map thumbprint (snd (verifySignature p registryUp now (sampleJwt hs256Header) []))
     = [sampleThumbprint]"
  by (simp add: verifySignature_def sampleJwt_def hs256Header_def kid_parts country_sample
      Let_def lookup_fresh kid_nonempty newEntry_def)

text \<open>
  C6 as the specification states it fails on four inputs. A header whose \<open>alg\<close> is
  the empty string is validated as \<open>RS256\<close> (here with a good signature: valid). A
  header with \<open>alg = HS256\<close> and a numeric \<open>kid\<close> is rejected, but with the TypeError
  of the debug line, not with the unsupported-algorithm error. A header whose \<open>alg\<close>
  is an object with a field \<open>toString\<close> is rejected with the TypeError of the string
  conversion in the error message. And in the pipeline the registry has been asked for the
  issuer of the token (the cache holds its entry) before the validator looks at the
  algorithm.
\<close>

theorem unsupported_algorithm_counterexample:
  "signatureValid (fst (validateJwtSignature (samplePlatform (JObj [(''alg'', JStr '''')]))
                          sampleToken rsaKeyData))
   \<and> validateJwtSignature (samplePlatform (JObj [(''alg'', JStr ''HS256''), (''kid'', JNum 5)]))
        sampleToken rsaKeyData = (Rejected (TypeError ''header.kid?.substring''), [])
   \<and> validateJwtSignature (samplePlatform (JObj [(''alg'', JObj [(''toString'', JNum 1)])]))
        sampleToken rsaKeyData = (Rejected (TypeError ''String(algorithm)''), [])
   \<and> map thumbprint (snd (processVerificationData (sampleLibraries hs256Header) registryUp 1
                             ''NCFOXN%TS3DH'' [])) = [sampleThumbprint]"
proof (intro conjI)
  show "signatureValid (fst (validateJwtSignature (samplePlatform (JObj [(''alg'', JStr '''')]))
                          sampleToken rsaKeyData))"
    by (simp add: validate_three_parts [OF sampleToken_parts samplePlatform_parse] js_or_def
        verifyWithKey_def resolve_sample Let_def) (simp add: samplePlatform_def)
  show "validateJwtSignature (samplePlatform (JObj [(''alg'', JStr ''HS256''), (''kid'', JNum 5)]))
        sampleToken rsaKeyData = (Rejected (TypeError ''header.kid?.substring''), [])"
    by (simp add: validate_three_parts [OF sampleToken_parts samplePlatform_parse])
  show "validateJwtSignature (samplePlatform (JObj [(''alg'', JObj [(''toString'', JNum 1)])]))
        sampleToken rsaKeyData = (Rejected (TypeError ''String(algorithm)''), [])"
    by (simp add: validate_three_parts [OF sampleToken_parts samplePlatform_parse] js_or_def)
  from decode_sample [of hs256Header] obtain steps where
    ds: "decodeStages (sampleLibraries hs256Header) ''NCFOXN%TS3DH''
          = Inr (steps, sampleToken, sampleJwt hs256Header, length (renderJson (sampleJwt hs256Header)))
         \<and> map stepSize steps = [12, 1, 24, length (renderJson (sampleJwt hs256Header))]" ..
  from ds have d: "decodeStages (sampleLibraries hs256Header) ''NCFOXN%TS3DH''
          = Inr (steps, sampleToken, sampleJwt hs256Header, length (renderJson (sampleJwt hs256Header)))"
    by (rule conjunct1)
  show "map thumbprint (snd (processVerificationData (sampleLibraries hs256Header) registryUp 1
                             ''NCFOXN%TS3DH'' [])) = [sampleThumbprint]"
    unfolding process_steps [OF d] snd_conv signatureSteps_store by (rule verify_fresh_store)
qed

end
